theory Spec2Isabelle
  imports Main
begin

section \<open>JavaScript values\<close>

text \<open>
  The handler of \<^verbatim>\<open>src/routes/api/compare.ts\<close> works on untyped JSON: the request body
  and the match records of the upstream are \<^verbatim>\<open>any\<close>. A value is therefore a JSON value or
  \<^verbatim>\<open>undefined\<close>. An object is the list of its own properties (the first binding of a key
  is the property). Numbers are the integral ones (fractions and the printing of doubles
  are outside this model), and strings are the well-formed ones (a lone surrogate, which
  \<^verbatim>\<open>encodeURIComponent\<close> refuses, is outside it).
\<close>

datatype jv =
    JUndefined
  | JNull
  | JBool bool
  | JNum int
  | JStr string
  | JArr "jv list"
  | JObj "(string \<times> jv) list"

text \<open>
  What the code can throw: \<^verbatim>\<open>new Error(message)\<close> of the three fetchers, a
  \<^verbatim>\<open>TypeError\<close> of the engine (a property read of \<^verbatim>\<open>undefined\<close> or \<^verbatim>\<open>null\<close>, a call of
  something that is no function, the conversion of an object that has no callable
  \<^verbatim>\<open>toString\<close> to a string or a number, a rejected \<^verbatim>\<open>fetch\<close>), and the \<^verbatim>\<open>SyntaxError\<close> of
  \<^verbatim>\<open>req.json()\<close> on a body that is no JSON.
\<close>

datatype thrown = Error string | TypeError | SyntaxError

definition bindE :: "thrown + 'a \<Rightarrow> ('a \<Rightarrow> thrown + 'b) \<Rightarrow> thrown + 'b" where
  "bindE m f = (case m of Inl e \<Rightarrow> Inl e | Inr x \<Rightarrow> f x)"

text \<open>The results of a list of steps in order: the first throw, or all the values.\<close>

fun sequenceE :: "(thrown + 'a) list \<Rightarrow> thrown + 'a list" where
  "sequenceE [] = Inr []"
| "sequenceE (r # rs) =
     (case r of
        Inl e \<Rightarrow> Inl e
      | Inr y \<Rightarrow> (case sequenceE rs of Inl e \<Rightarrow> Inl e | Inr ys \<Rightarrow> Inr (y # ys)))"

definition nullish :: "jv \<Rightarrow> bool" where
  "nullish v = (v = JUndefined \<or> v = JNull)"

text \<open>
  \<^verbatim>\<open>v.k\<close> on a value that is not nullish. Only objects have the properties this program
  reads (\<^verbatim>\<open>info\<close>, \<^verbatim>\<open>participants\<close>, \<^verbatim>\<open>puuid\<close>, ...): none of these names is a member of
  a prototype of strings, numbers, booleans, arrays or objects.
\<close>

definition member :: "jv \<Rightarrow> string \<Rightarrow> jv" where
  "member v k =
     (case v of
        JObj kvs \<Rightarrow> (case map_of kvs k of None \<Rightarrow> JUndefined | Some x \<Rightarrow> x)
      | _ \<Rightarrow> JUndefined)"

text \<open>\<^verbatim>\<open>v.k\<close>: a TypeError on \<^verbatim>\<open>undefined\<close> and \<^verbatim>\<open>null\<close>.\<close>

definition getProp :: "jv \<Rightarrow> string \<Rightarrow> thrown + jv" where
  "getProp v k = (if nullish v then Inl TypeError else Inr (member v k))"

text \<open>\<^verbatim>\<open>v?.k\<close>: \<^verbatim>\<open>undefined\<close> on \<^verbatim>\<open>undefined\<close> and \<^verbatim>\<open>null\<close>.\<close>

definition optProp :: "jv \<Rightarrow> string \<Rightarrow> jv" where
  "optProp v k = (if nullish v then JUndefined else member v k)"

definition truthy :: "jv \<Rightarrow> bool" where
  "truthy v =
     (case v of
        JUndefined \<Rightarrow> False
      | JNull \<Rightarrow> False
      | JBool b \<Rightarrow> b
      | JNum n \<Rightarrow> n \<noteq> 0
      | JStr s \<Rightarrow> s \<noteq> []
      | _ \<Rightarrow> True)"

subsection \<open>Strings of values\<close>

fun digits :: "nat \<Rightarrow> string" where
  "digits n =
     (if n < 10 then [''0123456789'' ! n]
      else digits (n div 10) @ [''0123456789'' ! (n mod 10)])"

declare digits.simps [simp del]

text \<open>\<^verbatim>\<open>String(n)\<close> of an integral number (below \<^verbatim>\<open>1e21\<close> in size).\<close>

definition numberToString :: "int \<Rightarrow> string" where
  "numberToString n = (if n < 0 then CHR ''-'' # digits (nat (- n)) else digits (nat n))"

fun joinWith :: "string \<Rightarrow> string list \<Rightarrow> string" where
  "joinWith sep [] = []"
| "joinWith sep [x] = x"
| "joinWith sep (x # y # ys) = x @ sep @ joinWith sep (y # ys)"

text \<open>
  The conversion of a value to a string, as a template literal, a property key and
  \<^verbatim>\<open>join\<close> apply it. An array is its elements joined by commas (\<^verbatim>\<open>undefined\<close> and
  \<^verbatim>\<open>null\<close> elements as the empty string). An object of a JSON text is converted by the
  \<^verbatim>\<open>toString\<close> it inherits, unless it has a property \<^verbatim>\<open>toString\<close> of its own: that one
  is no function, the \<^verbatim>\<open>valueOf\<close> it has or inherits gives no primitive value either,
  and the conversion throws a TypeError.
\<close>

fun toString :: "jv \<Rightarrow> thrown + string" where
  "toString JUndefined = Inr ''undefined''"
| "toString JNull = Inr ''null''"
| "toString (JBool b) = Inr (if b then ''true'' else ''false'')"
| "toString (JNum n) = Inr (numberToString n)"
| "toString (JStr s) = Inr s"
| "toString (JArr xs) =
     (case sequenceE (map (\<lambda>x. if x = JUndefined \<or> x = JNull then Inr [] else toString x) xs) of
        Inl e \<Rightarrow> Inl e
      | Inr parts \<Rightarrow> Inr (joinWith '','' parts))"
| "toString (JObj kvs) =
     (if map_of kvs ''toString'' = None then Inr ''[object Object]'' else Inl TypeError)"

text \<open>\<^verbatim>\<open>xs.join(sep)\<close>.\<close>

definition arrayJoin :: "string \<Rightarrow> jv list \<Rightarrow> thrown + string" where
  "arrayJoin sep xs =
     bindE (sequenceE (map (\<lambda>x. if nullish x then Inr [] else toString x) xs))
       (\<lambda>parts. Inr (joinWith sep parts))"

text \<open>\<^verbatim>\<open>s.split(c)\<close> for a separator of one character.\<close>

fun split :: "char \<Rightarrow> string \<Rightarrow> string list" where
  "split c [] = [] # []"
| "split c (x # xs) =
     (if x = c then [] # split c xs
      else (case split c xs of [] \<Rightarrow> [x] # [] | y # ys \<Rightarrow> (x # y) # ys))"

text \<open>\<^verbatim>\<open>xs[i]\<close> of a destructuring pattern: \<^verbatim>\<open>undefined\<close> (None) out of range.\<close>

definition element :: "'a list \<Rightarrow> nat \<Rightarrow> 'a option" where
  "element xs i = (if i < length xs then Some (xs ! i) else None)"

section \<open>Region router\<close>

definition regionToRouting :: "(string \<times> string) list" where
  "regionToRouting =
     [(''na1'', ''americas''), (''br1'', ''americas''), (''la1'', ''americas''),
      (''la2'', ''americas''), (''euw1'', ''europe''), (''eun1'', ''europe''),
      (''tr1'', ''europe''), (''ru'', ''europe''), (''kr'', ''asia''),
      (''jp1'', ''asia''), (''oc1'', ''sea'')]"

text \<open>
  \<^verbatim>\<open>regionToRouting\<close> is an object literal, so \<^verbatim>\<open>regionToRouting[key]\<close> also finds the
  members it inherits from \<^verbatim>\<open>Object.prototype\<close> (functions, all truthy). Deno removes
  \<^verbatim>\<open>__proto__\<close> from \<^verbatim>\<open>Object.prototype\<close>.
\<close>

definition objectPrototypeMembers :: "string list" where
  "objectPrototypeMembers =
     [''constructor'', ''hasOwnProperty'', ''isPrototypeOf'', ''propertyIsEnumerable'',
      ''toLocaleString'', ''toString'', ''valueOf'', ''__defineGetter__'',
      ''__defineSetter__'', ''__lookupGetter__'', ''__lookupSetter__'']"

text \<open>
  The value of \<^verbatim>\<open>regionToRouting[region] || "americas"\<close>: a cluster name, or the
  inherited member of that name. The region is converted to a property key first, which
  may throw.
\<close>

datatype routing = Cluster string | Inherited string

definition route :: "jv \<Rightarrow> thrown + routing" where
  "route region =
     bindE (toString region) (\<lambda>key.
       Inr (case map_of regionToRouting key of
              Some cluster \<Rightarrow> Cluster cluster
            | None \<Rightarrow>
                if key \<in> set objectPrototypeMembers then Inherited key
                else Cluster ''americas''))"

section \<open>The upstream and the world\<close>

text \<open>
  A request is the URL the code builds, as its parts: the routing value in the host name,
  the game type and version of the path, and the identifiers.
\<close>

datatype request =
    AccountReq routing string string
  | HistoryReq routing string string nat nat
  | DetailReq routing string string string

datatype event = Fetch request | Sleep nat

record 'b response =
  status :: nat
  statusText :: string
  payload :: 'b

text \<open>\<^verbatim>\<open>response.ok\<close>\<close>

definition ok :: "'b response \<Rightarrow> bool" where
  "ok r = (200 \<le> status r \<and> status r \<le> 299)"

record RiotAccount =
  puuid :: string
  gameName :: string
  tagLine :: string

text \<open>
  The upstream is any state machine: each \<^verbatim>\<open>fetch\<close> settles with a response (its
  body as \<^verbatim>\<open>response.json()\<close> gives it, of the type the code declares for it) or
  rejects (a network failure, a URL that is invalid), and moves the state of the upstream
  on. \<open>secondRejectsFirst\<close> tells which of two concurrent rejected requests is settled
  first.
\<close>

record 'w upstream =
  accounts :: "'w \<Rightarrow> request \<Rightarrow> (thrown + RiotAccount response) \<times> 'w"
  matchIds :: "'w \<Rightarrow> request \<Rightarrow> (thrown + string list response) \<times> 'w"
  matchDetail :: "'w \<Rightarrow> request \<Rightarrow> (thrown + jv response) \<times> 'w"
  secondRejectsFirst :: "'w \<Rightarrow> bool"

text \<open>
  The world of one request: the state of the upstream and what the handler has done so
  far (its fetches and its \<^verbatim>\<open>setTimeout\<close> delays in milliseconds, in order).
\<close>

record 'w world =
  up :: 'w
  trace :: "event list"

definition sleep :: "nat \<Rightarrow> 'w world \<Rightarrow> 'w world" where
  "sleep ms s = s\<lparr>trace := trace s @ [Sleep ms]\<rparr>"

definition fetch ::
  "('w \<Rightarrow> request \<Rightarrow> (thrown + 'b response) \<times> 'w) \<Rightarrow> request \<Rightarrow> 'w world
     \<Rightarrow> (thrown + 'b response) \<times> 'w world" where
  "fetch handler req s =
     (case handler (up s) req of
        (r, w) \<Rightarrow> (r, \<lparr>up = w, trace = trace s @ [Fetch req]\<rparr>))"

section \<open>The fetchers\<close>

definition getAccountByRiotId ::
  "'w upstream \<Rightarrow> string \<Rightarrow> string \<Rightarrow> jv \<Rightarrow> 'w world \<Rightarrow> (thrown + RiotAccount) \<times> 'w world" where
  "getAccountByRiotId U gameName' tagLine' region s =
     (case route region of
        Inl e \<Rightarrow> (Inl e, s)
      | Inr routing \<Rightarrow>
          (case fetch (accounts U) (AccountReq routing gameName' tagLine') s of
             (Inl e, s1) \<Rightarrow> (Inl e, s1)
           | (Inr response, s1) \<Rightarrow>
               if \<not> ok response
               then (Inl (Error (''Failed to fetch account: '' @ statusText response)), s1)
               else (Inr (payload response), s1)))"

text \<open>
  The loop of \<^verbatim>\<open>getMatchHistory\<close>. It has no bound on the retries after a 429, so it may
  run forever: None is not returning.
\<close>

partial_function (option) history_loop ::
  "'w upstream \<Rightarrow> routing \<Rightarrow> string \<Rightarrow> string \<Rightarrow> nat \<Rightarrow> nat \<Rightarrow> string list \<Rightarrow> 'w world
     \<Rightarrow> ((thrown + string list) \<times> 'w world) option" where
  "history_loop U routing gameType puuid' count start allMatches s =
     (if start < count then
        (let currentBatchSize = min 100 (count - start) in
         case fetch (matchIds U) (HistoryReq routing gameType puuid' start currentBatchSize) s of
           (Inl e, s1) \<Rightarrow> Some (Inl e, s1)
         | (Inr response, s1) \<Rightarrow>
             if \<not> ok response then
               (if status response = 429
                then history_loop U routing gameType puuid' count start allMatches (sleep 2000 s1)
                else Some (Inl (Error (''Failed to fetch match history: '' @ statusText response)), s1))
             else
               (let matches = payload response in
                if length matches = 0 then Some (Inr allMatches, s1)
                else if length matches < currentBatchSize then Some (Inr (allMatches @ matches), s1)
                else history_loop U routing gameType puuid' count (start + currentBatchSize)
                       (allMatches @ matches) (sleep 100 s1)))
      else Some (Inr allMatches, s))"

definition getMatchHistory ::
  "'w upstream \<Rightarrow> string \<Rightarrow> jv \<Rightarrow> jv \<Rightarrow> nat \<Rightarrow> 'w world
     \<Rightarrow> ((thrown + string list) \<times> 'w world) option" where
  "getMatchHistory U puuid' region mode count s =
     (case route region of
        Inl e \<Rightarrow> Some (Inl e, s)
      | Inr routing \<Rightarrow>
          (let gameType = (if mode = JStr ''tft'' then ''tft'' else ''lol'')
           in history_loop U routing gameType puuid' count 0 [] s))"

definition getMatchDetails ::
  "'w upstream \<Rightarrow> string \<Rightarrow> jv \<Rightarrow> jv \<Rightarrow> 'w world \<Rightarrow> (thrown + jv) \<times> 'w world" where
  "getMatchDetails U matchId region mode s =
     (case route region of
        Inl e \<Rightarrow> (Inl e, s)
      | Inr routing \<Rightarrow>
          (let gameType = (if mode = JStr ''tft'' then ''tft'' else ''lol'');
               version = (if mode = JStr ''tft'' then ''v1'' else ''v5'')
           in case fetch (matchDetail U) (DetailReq routing gameType version matchId) s of
                (Inl e, s1) \<Rightarrow> (Inl e, s1)
              | (Inr response, s1) \<Rightarrow>
                  if \<not> ok response
                  then (Inl (Error (''Failed to fetch match details: '' @ statusText response)), s1)
                  else (Inr (payload response), s1)))"

section \<open>Projection of a match record\<close>

text \<open>\<^verbatim>\<open>xs.map(f)\<close> for a callback that may throw: the first throw ends the map.\<close>

fun mapE :: "('a \<Rightarrow> thrown + 'b) \<Rightarrow> 'a list \<Rightarrow> thrown + 'b list" where
  "mapE f [] = Inr []"
| "mapE f (x # xs) =
     (case f x of
        Inl e \<Rightarrow> Inl e
      | Inr y \<Rightarrow> (case mapE f xs of Inl e \<Rightarrow> Inl e | Inr ys \<Rightarrow> Inr (y # ys)))"

text \<open>\<^verbatim>\<open>ps.find((p) => p.puuid === puuid)\<close>\<close>

fun find :: "string \<Rightarrow> jv list \<Rightarrow> thrown + jv" where
  "find puuid' [] = Inr JUndefined"
| "find puuid' (p # ps) =
     (case getProp p ''puuid'' of
        Inl e \<Rightarrow> Inl e
      | Inr v \<Rightarrow> if v = JStr puuid' then Inr p else find puuid' ps)"

text \<open>
  \<^verbatim>\<open>match.info.participants.find((p) => p.puuid === puuid)\<close>: only an array has a
  \<^verbatim>\<open>find\<close> to call.
\<close>

definition findParticipant :: "jv \<Rightarrow> string \<Rightarrow> thrown + jv" where
  "findParticipant match puuid' =
     bindE (getProp match ''info'') (\<lambda>info.
     bindE (getProp info ''participants'') (\<lambda>participants.
       case participants of JArr ps \<Rightarrow> find puuid' ps | _ \<Rightarrow> Inl TypeError))"

text \<open>
  \<^verbatim>\<open>playerData?.traits?.slice(0, 3).map((t) => t.name).join(", ") || "N/A"\<close>: traits
  that are neither nullish nor an array have no \<^verbatim>\<open>slice\<close> whose result has a \<^verbatim>\<open>map\<close>.
\<close>

definition traitNames :: "jv \<Rightarrow> thrown + jv" where
  "traitNames playerData =
     (let traits = optProp playerData ''traits'' in
      if nullish traits then Inr (JStr ''N/A'')
      else case traits of
        JArr ts \<Rightarrow>
          bindE (mapE (\<lambda>t. getProp t ''name'') (take 3 ts)) (\<lambda>names.
          bindE (arrayJoin '', '' names) (\<lambda>joined.
            Inr (JStr (if joined = [] then ''N/A'' else joined))))
      | _ \<Rightarrow> Inl TypeError)"

text \<open>
  The conversion of a value to a number, as the division applies it, None for
  \<^verbatim>\<open>NaN\<close>. The number a string stands for is the engine's \<^verbatim>\<open>StringToNumber\<close>, a
  parameter here. An array or an object is converted to a string first (which may throw);
  the string \<^verbatim>\<open>[object Object]\<close> of an object stands for no number.
\<close>

definition toNumber :: "(string \<Rightarrow> int option) \<Rightarrow> jv \<Rightarrow> thrown + int option" where
  "toNumber stringToNumber v =
     (case v of
        JUndefined \<Rightarrow> Inr None
      | JNull \<Rightarrow> Inr (Some 0)
      | JBool b \<Rightarrow> Inr (Some (if b then 1 else 0))
      | JNum n \<Rightarrow> Inr (Some n)
      | JStr s \<Rightarrow> Inr (stringToNumber s)
      | JArr xs \<Rightarrow> bindE (toString v) (\<lambda>s. Inr (stringToNumber s))
      | JObj kvs \<Rightarrow> bindE (toString v) (\<lambda>s. Inr None))"

text \<open>
  \<^verbatim>\<open>formatDuration(seconds)\<close>: the division converts \<^verbatim>\<open>seconds\<close> to a number;
  \<^verbatim>\<open>Math.floor(seconds / 60)\<close> rounds down and \<^verbatim>\<open>seconds % 60\<close> has the sign of
  \<^verbatim>\<open>seconds\<close>.
\<close>

definition formatDuration :: "(string \<Rightarrow> int option) \<Rightarrow> jv \<Rightarrow> thrown + string" where
  "formatDuration stringToNumber seconds =
     bindE (toNumber stringToNumber seconds) (\<lambda>number.
       Inr (case number of
              None \<Rightarrow> ''NaNm NaNs''
            | Some n \<Rightarrow>
                (let mins = n div 60;
                     secs = (if 0 \<le> n then n mod 60 else - ((- n) mod 60))
                 in numberToString mins @ ''m '' @ numberToString secs @ ''s'')))"

text \<open>\<^verbatim>\<open>v.a.b\<close>\<close>

definition path :: "jv \<Rightarrow> string \<Rightarrow> string \<Rightarrow> thrown + jv" where
  "path v a b = bindE (getProp v a) (\<lambda>x. getProp x b)"

text \<open>
  The callback of \<^verbatim>\<open>sharedMatches.map\<close>. Every throw in it is a TypeError and nothing
  in it has an effect, so the order in which the fields of the summary are read does not
  show.
\<close>

definition projectMatch ::
  "(string \<Rightarrow> int option) \<Rightarrow> jv \<Rightarrow> string \<Rightarrow> string \<Rightarrow> jv \<Rightarrow> thrown + jv" where
  "projectMatch stringToNumber mode puuid1 puuid2 match =
     (if mode = JStr ''tft'' then
        bindE (findParticipant match puuid1) (\<lambda>player1Data.
        bindE (findParticipant match puuid2) (\<lambda>player2Data.
        bindE (path match ''metadata'' ''match_id'') (\<lambda>matchId.
        bindE (path match ''info'' ''tft_set_number'') (\<lambda>setNumber.
        bindE (path match ''info'' ''game_datetime'') (\<lambda>timestamp.
        bindE (path match ''info'' ''game_length'') (\<lambda>gameLength.
        bindE (if truthy setNumber
               then bindE (toString setNumber) (\<lambda>number. Inr (JStr (''Set '' @ number)))
               else Inr (JStr ''TFT'')) (\<lambda>gameMode.
        bindE (formatDuration stringToNumber gameLength) (\<lambda>duration.
        bindE (traitNames player1Data) (\<lambda>traits1.
        bindE (traitNames player2Data) (\<lambda>traits2.
          Inr (JObj
            [(''matchId'', matchId),
             (''gameMode'', gameMode),
             (''timestamp'', timestamp),
             (''duration'', JStr duration),
             (''players'', JObj
                [(''player1'', JObj
                    [(''placement'', optProp player1Data ''placement''),
                     (''traits'', traits1)]),
                 (''player2'', JObj
                    [(''placement'', optProp player2Data ''placement''),
                     (''traits'', traits2)])])])))))))))))
      else
        bindE (findParticipant match puuid1) (\<lambda>player1Data.
        bindE (findParticipant match puuid2) (\<lambda>player2Data.
        bindE (path match ''metadata'' ''matchId'') (\<lambda>matchId.
        bindE (path match ''info'' ''gameMode'') (\<lambda>gameMode.
        bindE (path match ''info'' ''gameStartTimestamp'') (\<lambda>timestamp.
        bindE (path match ''info'' ''gameDuration'') (\<lambda>gameDuration.
        bindE (formatDuration stringToNumber gameDuration) (\<lambda>duration.
          Inr (JObj
            [(''matchId'', matchId),
             (''gameMode'', gameMode),
             (''timestamp'', timestamp),
             (''duration'', JStr duration),
             (''players'', JObj
                [(''player1'', JObj
                    [(''champion'', optProp player1Data ''championName''),
                     (''team'', optProp player1Data ''teamId'')]),
                 (''player2'', JObj
                    [(''champion'', optProp player2Data ''championName''),
                     (''team'', optProp player2Data ''teamId'')])])])))))))))"

section \<open>The handler\<close>

text \<open>
  A reply is \<^verbatim>\<open>Response.json(value, { status })\<close>. The message of an error the engine
  raised is the engine's text (never empty), \<open>EngineText\<close> here.
\<close>

datatype errorText = Text string | EngineText

datatype content = ErrorJson errorText | Json jv

datatype reply = Reply nat content

text \<open>\<^verbatim>\<open>error.message || "An error occurred"\<close>\<close>

definition errorMessage :: "thrown \<Rightarrow> errorText" where
  "errorMessage error =
     (case error of
        Error m \<Rightarrow> Text (if m = [] then ''An error occurred'' else m)
      | _ \<Rightarrow> EngineText)"

text \<open>\<^verbatim>\<open>player.split("#")\<close>: only a string has a \<^verbatim>\<open>split\<close> to call.\<close>

definition splitPlayer :: "jv \<Rightarrow> thrown + string list" where
  "splitPlayer player = (case player of JStr s \<Rightarrow> Inr (split CHR ''#'' s) | _ \<Rightarrow> Inl TypeError)"

text \<open>
  \<^verbatim>\<open>Promise.all\<close> of the two account requests: both are sent, the first one first; if
  both are rejected, the error is the one of the request that is settled first.
\<close>

definition resolveAccounts ::
  "'w upstream \<Rightarrow> string \<Rightarrow> string \<Rightarrow> string \<Rightarrow> string \<Rightarrow> jv \<Rightarrow> 'w world
     \<Rightarrow> (thrown + RiotAccount \<times> RiotAccount) \<times> 'w world" where
  "resolveAccounts U gameName1 tagLine1 gameName2 tagLine2 region s =
     (case getAccountByRiotId U gameName1 tagLine1 region s of (r1, s1) \<Rightarrow>
      case getAccountByRiotId U gameName2 tagLine2 region s1 of (r2, s2) \<Rightarrow>
        (case r1 of
           Inr account1 \<Rightarrow> (case r2 of Inr account2 \<Rightarrow> Inr (account1, account2) | Inl e2 \<Rightarrow> Inl e2)
         | Inl e1 \<Rightarrow>
             (case r2 of
                Inr account2 \<Rightarrow> Inl e1
              | Inl e2 \<Rightarrow> Inl (if secondRejectsFirst U (up s2) then e2 else e1)),
         s2))"

text \<open>The \<^verbatim>\<open>for\<close> loop over the shared match IDs.\<close>

fun fetchSharedMatches ::
  "'w upstream \<Rightarrow> jv \<Rightarrow> jv \<Rightarrow> string list \<Rightarrow> jv list \<Rightarrow> 'w world \<Rightarrow> (thrown + jv list) \<times> 'w world" where
  "fetchSharedMatches U region mode [] sharedMatches s = (Inr sharedMatches, s)"
| "fetchSharedMatches U region mode (id' # ids) sharedMatches s =
     (case getMatchDetails U id' region mode s of
        (Inl e, s1) \<Rightarrow> (Inl e, s1)
      | (Inr match, s1) \<Rightarrow>
          fetchSharedMatches U region mode ids (sharedMatches @ [match]) (sleep 100 s1))"

text \<open>
  The \<^verbatim>\<open>try\<close> block of \<^verbatim>\<open>POST\<close> after the validation of the two players: the
  accounts, the two histories, the shared match IDs, their records and the reply.
\<close>

definition reconcile ::
  "(string \<Rightarrow> int option) \<Rightarrow> 'w upstream \<Rightarrow> string \<Rightarrow> string \<Rightarrow> string \<Rightarrow> string \<Rightarrow> jv \<Rightarrow> jv
     \<Rightarrow> 'w world \<Rightarrow> ((thrown + reply) \<times> 'w world) option" where
  "reconcile stringToNumber U gameName1 tagLine1 gameName2 tagLine2 region mode s =
     (case resolveAccounts U gameName1 tagLine1 gameName2 tagLine2 region s of
        (Inl e, s1) \<Rightarrow> Some (Inl e, s1)
      | (Inr (account1, account2), s1) \<Rightarrow>
     (case getMatchHistory U (puuid account1) region mode 500 s1 of
        None \<Rightarrow> None
      | Some (Inl e, s2) \<Rightarrow> Some (Inl e, s2)
      | Some (Inr matches1, s2) \<Rightarrow>
     (case getMatchHistory U (puuid account2) region mode 500 s2 of
        None \<Rightarrow> None
      | Some (Inl e, s3) \<Rightarrow> Some (Inl e, s3)
      | Some (Inr matches2, s3) \<Rightarrow>
     (let sharedMatchIds = filter (\<lambda>id'. id' \<in> set matches2) matches1 in
      case fetchSharedMatches U region mode sharedMatchIds [] s3 of
        (Inl e, s4) \<Rightarrow> Some (Inl e, s4)
      | (Inr sharedMatches, s4) \<Rightarrow>
     (case mapE (projectMatch stringToNumber mode (puuid account1) (puuid account2))
             sharedMatches of
        Inl e \<Rightarrow> Some (Inl e, s4)
      | Inr matchData \<Rightarrow>
          Some (Inr (Reply 200 (Json (JObj
            [(''player1'', JObj [(''gameName'', JStr (gameName account1)),
                                 (''tagLine'', JStr (tagLine account1))]),
             (''player2'', JObj [(''gameName'', JStr (gameName account2)),
                                 (''tagLine'', JStr (tagLine account2))]),
             (''matches'', JArr matchData)]))), s4))))))"

text \<open>
  The \<^verbatim>\<open>try\<close> block of \<^verbatim>\<open>POST\<close>; the body of the request is None when it is no JSON.
  \<^verbatim>\<open>gameName1\<close> and the other three parts are None when \<^verbatim>\<open>undefined\<close>, so
  \<^verbatim>\<open>!gameName1\<close> holds of None and of the empty string.
\<close>

definition tryBlock ::
  "(string \<Rightarrow> int option) \<Rightarrow> 'w upstream \<Rightarrow> jv option \<Rightarrow> 'w world
     \<Rightarrow> ((thrown + reply) \<times> 'w world) option" where
  "tryBlock stringToNumber U body s =
     (case body of
        None \<Rightarrow> Some (Inl SyntaxError, s)
      | Some b \<Rightarrow>
          if nullish b then Some (Inl TypeError, s)
          else
            (let player1 = member b ''player1'';
                 player2 = member b ''player2'';
                 region = member b ''region'';
                 mode = (if member b ''mode'' = JUndefined then JStr ''lol'' else member b ''mode'')
             in
             case splitPlayer player1 of
               Inl e \<Rightarrow> Some (Inl e, s)
             | Inr parts1 \<Rightarrow>
            (case splitPlayer player2 of
               Inl e \<Rightarrow> Some (Inl e, s)
             | Inr parts2 \<Rightarrow>
            (case (element parts1 0, element parts1 1, element parts2 0, element parts2 1) of
               (Some gameName1, Some tagLine1, Some gameName2, Some tagLine2) \<Rightarrow>
                 if gameName1 = [] \<or> tagLine1 = [] \<or> gameName2 = [] \<or> tagLine2 = []
                 then Some (Inr (Reply 400
                        (ErrorJson (Text ''Invalid player format. Use: Name#TAG''))), s)
                 else reconcile stringToNumber U gameName1 tagLine1 gameName2 tagLine2
                        region mode s
             | _ \<Rightarrow> Some (Inr (Reply 400
                        (ErrorJson (Text ''Invalid player format. Use: Name#TAG''))), s)))))"

text \<open>
  \<^verbatim>\<open>POST\<close>: the check of the API key (\<^verbatim>\<open>!RIOT_API_KEY\<close> holds of \<^verbatim>\<open>undefined\<close> and of
  the empty string), then the \<^verbatim>\<open>try\<close> block and its \<^verbatim>\<open>catch\<close>.
\<close>

definition POST ::
  "string option \<Rightarrow> (string \<Rightarrow> int option) \<Rightarrow> 'w upstream \<Rightarrow> jv option \<Rightarrow> 'w world
     \<Rightarrow> (reply \<times> 'w world) option" where
  "POST RIOT_API_KEY stringToNumber U body s =
     (if RIOT_API_KEY = None \<or> RIOT_API_KEY = Some []
      then Some (Reply 500 (ErrorJson (Text ''Riot API key not configured'')), s)
      else
        (case tryBlock stringToNumber U body s of
           None \<Rightarrow> None
         | Some (Inl error, s') \<Rightarrow> Some (Reply 500 (ErrorJson (errorMessage error)), s')
         | Some (Inr reply, s') \<Rightarrow> Some (reply, s')))"

section \<open>Upstreams and records of the scenarios\<close>

text \<open>
  The upstreams below are test doubles for the scenarios of the specification; the
  theorems about arbitrary upstreams are applied to them.
\<close>

definition okResponse :: "'b \<Rightarrow> 'b response" where
  "okResponse x = \<lparr>status = 200, statusText = ''OK'', payload = x\<rparr>"

definition rateLimited :: "'b \<Rightarrow> 'b response" where
  "rateLimited x = \<lparr>status = 429, statusText = ''Too Many Requests'', payload = x\<rparr>"

text \<open>
  A classic-mode match record with an entry for each of the two players; the time of
  its start is a parameter.
\<close>

definition classicRecord :: "int \<Rightarrow> string \<Rightarrow> jv" where
  "classicRecord timestamp matchId =
     JObj [(''metadata'', JObj [(''matchId'', JStr matchId)]),
           (''info'', JObj
              [(''gameMode'', JStr ''CLASSIC''),
               (''gameStartTimestamp'', JNum timestamp),
               (''gameDuration'', JNum 1834),
               (''participants'', JArr
                  [JObj [(''puuid'', JStr ''puuid-Ann''), (''championName'', JStr ''Ahri''),
                         (''teamId'', JNum 100)],
                   JObj [(''puuid'', JStr ''puuid-Bob''), (''championName'', JStr ''Zed''),
                         (''teamId'', JNum 200)]])])]"


text \<open>An auto-battler record whose time is given in seconds.\<close>

definition autoBattlerRecord :: "string \<Rightarrow> jv" where
  "autoBattlerRecord matchId =
     JObj [(''metadata'', JObj [(''match_id'', JStr matchId)]),
           (''info'', JObj
              [(''tft_set_number'', JNum 9),
               (''game_datetime'', JNum 1700000000),
               (''game_length'', JNum 2157),
               (''participants'', JArr
                  [JObj [(''puuid'', JStr ''puuid-Ann''), (''placement'', JNum 1),
                         (''traits'', JArr [JObj [(''name'', JStr ''Set9_Ionia'')],
                                            JObj [(''name'', JStr ''Set9_Sorcerer'')]])],
                   JObj [(''puuid'', JStr ''puuid-Bob''), (''placement'', JNum 5)]])])]"

text \<open>
  Two accounts \<^verbatim>\<open>Ann\<close> and \<^verbatim>\<open>Bob\<close> with the histories \<^verbatim>\<open>[A,B,C,D]\<close> and
  \<^verbatim>\<open>[X,B,Y,D]\<close>; the record of a match is a parameter. As with \<^verbatim>\<open>fetch\<close>, a request
  whose host is not built from a cluster name is rejected with a TypeError (such a URL
  is invalid).
\<close>

definition scenario :: "(string \<Rightarrow> jv) \<Rightarrow> unit upstream" where
  "scenario record =
     \<lparr>accounts = (\<lambda>w req. case req of
          AccountReq (Cluster cluster) name tag \<Rightarrow>
            (Inr (okResponse \<lparr>puuid = ''puuid-'' @ name, gameName = name, tagLine = tag\<rparr>), w)
        | _ \<Rightarrow> (Inl TypeError, w)),
      matchIds = (\<lambda>w req. case req of
          HistoryReq (Cluster cluster) gameType p start count \<Rightarrow>
            (Inr (okResponse
               (if start \<noteq> 0 then []
                else if p = ''puuid-Ann'' then [''A'', ''B'', ''C'', ''D'']
                else [''X'', ''B'', ''Y'', ''D''])), w)
        | _ \<Rightarrow> (Inl TypeError, w)),
      matchDetail = (\<lambda>w req. case req of
          DetailReq (Cluster cluster) gameType version matchId \<Rightarrow>
            (Inr (okResponse (record matchId)), w)
        | _ \<Rightarrow> (Inl TypeError, w)),
      secondRejectsFirst = (\<lambda>w. False)\<rparr>"

definition scenarioBody :: "jv" where
  "scenarioBody =
     JObj [(''player1'', JStr ''Ann#NA1''), (''player2'', JStr ''Bob#NA1''),
           (''region'', JStr ''na1'')]"

text \<open>An upstream whose batch of match IDs is a function of the offset and the count asked.\<close>

definition batches :: "(nat \<Rightarrow> nat \<Rightarrow> string list) \<Rightarrow> unit upstream" where
  "batches batch =
     \<lparr>accounts = (\<lambda>w req. (Inl TypeError, w)),
      matchIds = (\<lambda>w req. case req of
          HistoryReq routing gameType p start count \<Rightarrow> (Inr (okResponse (batch start count)), w)
        | _ \<Rightarrow> (Inl TypeError, w)),
      matchDetail = (\<lambda>w req. (Inl TypeError, w)),
      secondRejectsFirst = (\<lambda>w. False)\<rparr>"

text \<open>
  An upstream put behind a rate limiter: before it passes the next request for match IDs
  on, the limiter answers 429 as many times as the head of its schedule says.
\<close>

definition throttled :: "'w upstream \<Rightarrow> ('w \<times> nat list) upstream" where
  "throttled U =
     \<lparr>accounts = (\<lambda>(w, ns) req. case accounts U w req of (r, w') \<Rightarrow> (r, (w', ns))),
      matchIds = (\<lambda>(w, ns) req.
         case ns of
           [] \<Rightarrow> (case matchIds U w req of (r, w') \<Rightarrow> (r, (w', [])))
         | n # ns' \<Rightarrow>
             (case n of
                0 \<Rightarrow> (case matchIds U w req of (r, w') \<Rightarrow> (r, (w', ns')))
              | Suc k \<Rightarrow> (Inr (rateLimited []), (w, k # ns')))),
      matchDetail = (\<lambda>(w, ns) req. case matchDetail U w req of (r, w') \<Rightarrow> (r, (w', ns))),
      secondRejectsFirst = (\<lambda>(w, ns). secondRejectsFirst U w)\<rparr>"

text \<open>
  The values that have a string and a number: all but an object with a property
  \<^verbatim>\<open>toString\<close> of its own and an array that holds a value without a string.
\<close>

fun convertible :: "jv \<Rightarrow> bool" where
  "convertible (JObj kvs) = (map_of kvs ''toString'' = None)"
| "convertible (JArr xs) = list_all convertible xs"
| "convertible v = True"




text \<open>
  A player in the words of the specification: invalid when it has no \<^verbatim>\<open>#\<close> or when one
  of the two halves around its first \<^verbatim>\<open>#\<close> is empty.
\<close>

definition invalidPlayer :: "string \<Rightarrow> bool" where
  "invalidPlayer p =
     (CHR ''#'' \<notin> set p \<or> takeWhile (\<lambda>x. x \<noteq> CHR ''#'') p = [] \<or>
      tl (dropWhile (\<lambda>x. x \<noteq> CHR ''#'') p) = [])"



text \<open>A record without \<^verbatim>\<open>info\<close>.\<close>

definition malformedRecord :: "string \<Rightarrow> jv" where
  "malformedRecord matchId = JObj [(''metadata'', JObj [(''matchId'', JStr matchId)])]"


text \<open>
  A value with the property \<open>k\<close> changed by \<open>g\<close>, and a match record with the puuids of its
  participants renamed by \<open>f\<close>.
\<close>

definition mapField :: "string \<Rightarrow> (jv \<Rightarrow> jv) \<Rightarrow> jv \<Rightarrow> jv" where
  "mapField k g v =
     (case v of
        JObj kvs \<Rightarrow> JObj (map (\<lambda>(k', x). (k', if k' = k then g x else x)) kvs)
      | _ \<Rightarrow> v)"




text \<open>\<^verbatim>\<open>Object.keys(v)\<close>\<close>

definition fields :: "jv \<Rightarrow> string list" where
  "fields v = (case v of JObj kvs \<Rightarrow> map fst kvs | _ \<Rightarrow> [])"

text \<open>
  The fields of a summary and of the stats of its two players, none of them a
  \<^verbatim>\<open>puuid\<close>.
\<close>

definition summaryFields :: "jv \<Rightarrow> jv \<Rightarrow> bool" where
  "summaryFields mode summary =
     (let stats = (if mode = JStr ''tft'' then [''placement'', ''traits'']
                   else [''champion'', ''team''])
      in fields summary = [''matchId'', ''gameMode'', ''timestamp'', ''duration'', ''players''] \<and>
         fields (member summary ''players'') = [''player1'', ''player2''] \<and>
         fields (member (member summary ''players'') ''player1'') = stats \<and>
         fields (member (member summary ''players'') ''player2'') = stats)"

text \<open>The scenario against the upstream \<open>scenario\<close>: its accounts, reply and events.\<close>

definition annAccount :: RiotAccount where
  "annAccount = \<lparr>puuid = ''puuid-Ann'', gameName = ''Ann'', tagLine = ''NA1''\<rparr>"

definition bobAccount :: RiotAccount where
  "bobAccount = \<lparr>puuid = ''puuid-Bob'', gameName = ''Bob'', tagLine = ''NA1''\<rparr>"

definition scenarioSummary :: "string \<Rightarrow> jv" where
  "scenarioSummary matchId =
     JObj [(''matchId'', JStr matchId),
           (''gameMode'', JStr ''CLASSIC''),
           (''timestamp'', JNum 1700000000000),
           (''duration'', JStr ''30m 34s''),
           (''players'', JObj
              [(''player1'', JObj [(''champion'', JStr ''Ahri''), (''team'', JNum 100)]),
               (''player2'', JObj [(''champion'', JStr ''Zed''), (''team'', JNum 200)])])]"

definition scenarioResult :: jv where
  "scenarioResult =
     JObj [(''player1'', JObj [(''gameName'', JStr ''Ann''), (''tagLine'', JStr ''NA1'')]),
           (''player2'', JObj [(''gameName'', JStr ''Bob''), (''tagLine'', JStr ''NA1'')]),
           (''matches'', JArr [scenarioSummary ''B'', scenarioSummary ''D''])]"

definition scenarioEvents :: "event list" where
  "scenarioEvents =
     [Fetch (AccountReq (Cluster ''americas'') ''Ann'' ''NA1''),
      Fetch (AccountReq (Cluster ''americas'') ''Bob'' ''NA1''),
      Fetch (HistoryReq (Cluster ''americas'') ''lol'' ''puuid-Ann'' 0 100),
      Fetch (HistoryReq (Cluster ''americas'') ''lol'' ''puuid-Bob'' 0 100),
      Fetch (DetailReq (Cluster ''americas'') ''lol'' ''v5'' ''B''), Sleep 100,
      Fetch (DetailReq (Cluster ''americas'') ''lol'' ''v5'' ''D''), Sleep 100]"

section \<open>The classic mode\<close>

text \<open>
  The compare of the classic mode in the words of the specification, without a mode: the
  two accounts, the two histories of at most 500 IDs from the \<^verbatim>\<open>lol\<close> endpoint, the
  records of the shared IDs from the \<^verbatim>\<open>lol\<close> endpoint of version \<^verbatim>\<open>v5\<close> (100 ms after
  each), and of each record the classic summary: the ID, the game mode, the time of the
  start and the duration of the record, and the champion and the team of each player.
\<close>

definition classicSummary :: "(string \<Rightarrow> int option) \<Rightarrow> string \<Rightarrow> string \<Rightarrow> jv \<Rightarrow> thrown + jv" where
  "classicSummary stringToNumber puuid1 puuid2 match =
     bindE (findParticipant match puuid1) (\<lambda>player1Data.
     bindE (findParticipant match puuid2) (\<lambda>player2Data.
     bindE (path match ''metadata'' ''matchId'') (\<lambda>matchId.
     bindE (path match ''info'' ''gameMode'') (\<lambda>gameMode.
     bindE (path match ''info'' ''gameStartTimestamp'') (\<lambda>timestamp.
     bindE (path match ''info'' ''gameDuration'') (\<lambda>gameDuration.
     bindE (formatDuration stringToNumber gameDuration) (\<lambda>duration.
       Inr (JObj
         [(''matchId'', matchId),
          (''gameMode'', gameMode),
          (''timestamp'', timestamp),
          (''duration'', JStr duration),
          (''players'', JObj
             [(''player1'', JObj
                 [(''champion'', optProp player1Data ''championName''),
                  (''team'', optProp player1Data ''teamId'')]),
              (''player2'', JObj
                 [(''champion'', optProp player2Data ''championName''),
                  (''team'', optProp player2Data ''teamId'')])])]))))))))"

definition classicDetails ::
  "'w upstream \<Rightarrow> routing \<Rightarrow> string \<Rightarrow> 'w world \<Rightarrow> (thrown + jv) \<times> 'w world" where
  "classicDetails U routing matchId s =
     (case fetch (matchDetail U) (DetailReq routing ''lol'' ''v5'' matchId) s of
        (Inl e, s1) \<Rightarrow> (Inl e, s1)
      | (Inr response, s1) \<Rightarrow>
          if \<not> ok response
          then (Inl (Error (''Failed to fetch match details: '' @ statusText response)), s1)
          else (Inr (payload response), s1))"

fun classicRecords ::
  "'w upstream \<Rightarrow> routing \<Rightarrow> string list \<Rightarrow> 'w world \<Rightarrow> (thrown + jv list) \<times> 'w world" where
  "classicRecords U routing [] s = (Inr [], s)"
| "classicRecords U routing (i # ids) s =
     (case classicDetails U routing i s of
        (Inl e, s1) \<Rightarrow> (Inl e, s1)
      | (Inr match, s1) \<Rightarrow>
          (case classicRecords U routing ids (sleep 100 s1) of
             (Inl e, s2) \<Rightarrow> (Inl e, s2)
           | (Inr matches, s2) \<Rightarrow> (Inr (match # matches), s2)))"

definition classicCompare ::
  "(string \<Rightarrow> int option) \<Rightarrow> 'w upstream \<Rightarrow> string \<Rightarrow> string \<Rightarrow> string \<Rightarrow> string \<Rightarrow> jv
     \<Rightarrow> 'w world \<Rightarrow> ((thrown + reply) \<times> 'w world) option" where
  "classicCompare stringToNumber U gameName1 tagLine1 gameName2 tagLine2 region s =
     (case resolveAccounts U gameName1 tagLine1 gameName2 tagLine2 region s of
        (Inl e, s1) \<Rightarrow> Some (Inl e, s1)
      | (Inr (account1, account2), s1) \<Rightarrow>
     (case route region of
        Inl e \<Rightarrow> Some (Inl e, s1)
      | Inr routing \<Rightarrow>
     (case history_loop U routing ''lol'' (puuid account1) 500 0 [] s1 of
        None \<Rightarrow> None
      | Some (Inl e, s2) \<Rightarrow> Some (Inl e, s2)
      | Some (Inr matches1, s2) \<Rightarrow>
     (case history_loop U routing ''lol'' (puuid account2) 500 0 [] s2 of
        None \<Rightarrow> None
      | Some (Inl e, s3) \<Rightarrow> Some (Inl e, s3)
      | Some (Inr matches2, s3) \<Rightarrow>
     (case classicRecords U routing (filter (\<lambda>i. i \<in> set matches2) matches1) s3 of
        (Inl e, s4) \<Rightarrow> Some (Inl e, s4)
      | (Inr sharedMatches, s4) \<Rightarrow>
     (case mapE (classicSummary stringToNumber (puuid account1) (puuid account2))
             sharedMatches of
        Inl e \<Rightarrow> Some (Inl e, s4)
      | Inr matchData \<Rightarrow>
          Some (Inr (Reply 200 (Json (JObj
            [(''player1'', JObj [(''gameName'', JStr (gameName account1)),
                                 (''tagLine'', JStr (tagLine account1))]),
             (''player2'', JObj [(''gameName'', JStr (gameName account2)),
                                 (''tagLine'', JStr (tagLine account2))]),
             (''matches'', JArr matchData)]))), s4)))))))"

section \<open>The loop of the match history, step by step\<close>

text \<open>
  One turn of the loop of \<^verbatim>\<open>getMatchHistory\<close>: it returns, or it goes on with a new
  offset, list and world. \<open>history_loop\<close> is the iteration of this step
  (\<open>history_loop_step\<close> below).
\<close>

datatype 'w step = Return "thrown + string list" "'w world" | Continue nat "string list" "'w world"

definition history_step ::
  "'w upstream \<Rightarrow> routing \<Rightarrow> string \<Rightarrow> string \<Rightarrow> nat \<Rightarrow> nat \<Rightarrow> string list \<Rightarrow> 'w world \<Rightarrow> 'w step" where
  "history_step U routing gameType puuid' count start allMatches s =
     (if start < count then
        (let currentBatchSize = min 100 (count - start) in
         case fetch (matchIds U) (HistoryReq routing gameType puuid' start currentBatchSize) s of
           (Inl e, s1) \<Rightarrow> Return (Inl e) s1
         | (Inr response, s1) \<Rightarrow>
             if \<not> ok response then
               (if status response = 429
                then Continue start allMatches (sleep 2000 s1)
                else Return (Inl (Error (''Failed to fetch match history: '' @ statusText response))) s1)
             else
               (let matches = payload response in
                if length matches = 0 then Return (Inr allMatches) s1
                else if length matches < currentBatchSize then Return (Inr (allMatches @ matches)) s1
                else Continue (start + currentBatchSize) (allMatches @ matches) (sleep 100 s1)))
      else Return (Inr allMatches) s)"

text \<open>The schedule lets the next request through.\<close>

definition passes :: "nat list \<Rightarrow> bool" where
  "passes ns = (case ns of [] \<Rightarrow> True | n # ns' \<Rightarrow> n = 0)"

text \<open>Two steps that agree but for the traces and the schedule of the limiter.\<close>

definition agree :: "('w \<times> nat list) step \<Rightarrow> 'w step \<Rightarrow> nat list \<Rightarrow> bool" where
  "agree a b ns =
     (case a of
        Return r1 s1 \<Rightarrow>
          (case b of Return r2 s2 \<Rightarrow> r1 = r2 \<and> up s1 = (up s2, ns) | Continue st al s2 \<Rightarrow> False)
      | Continue st1 al1 s1 \<Rightarrow>
          (case b of
             Return r2 s2 \<Rightarrow> False
           | Continue st2 al2 s2 \<Rightarrow> st1 = st2 \<and> al1 = al2 \<and> up s1 = (up s2, ns)))"

text \<open>An upstream that answers every request for match IDs with one status.\<close>

definition answering :: "nat \<Rightarrow> string \<Rightarrow> unit upstream" where
  "answering code text =
     \<lparr>accounts = (\<lambda>w req. (Inl TypeError, w)),
      matchIds = (\<lambda>w req. (Inr \<lparr>status = code, statusText = text, payload = []\<rparr>, w)),
      matchDetail = (\<lambda>w req. (Inl TypeError, w)),
      secondRejectsFirst = (\<lambda>w. False)\<rparr>"

text \<open>
  Upstreams with an endless history: one that gives as many IDs as are asked, one that
  gives 100 IDs whatever is asked, and one whose batches from the offset 200 on have
  \<open>n\<close> IDs.
\<close>

definition fullBatches :: "unit upstream" where
  "fullBatches = batches (\<lambda>start count. replicate count ''id'')"

definition hundredBatches :: "unit upstream" where
  "hundredBatches = batches (\<lambda>start count. replicate 100 ''id'')"

definition endingBatches :: "nat \<Rightarrow> unit upstream" where
  "endingBatches n = batches (\<lambda>start count. replicate (if start < 200 then 100 else n) ''id'')"

section \<open>Properties of the conversions\<close>

lemma bindE_Inr: "bindE m f = Inr y \<Longrightarrow> \<exists>x. m = Inr x \<and> f x = Inr y"
  by (cases m) (simp_all add: bindE_def)

lemma bindE_simps [simp]: "bindE (Inr x) f = f x" "bindE (Inl e) f = Inl e"
  by (simp_all add: bindE_def)

lemma sequenceE_Inr:
  "(\<And>x. x \<in> set xs \<Longrightarrow> \<exists>y. f x = Inr y) \<Longrightarrow> \<exists>ys. sequenceE (map f xs) = Inr ys"
proof (induction xs)
  case Nil
  show ?case by simp
next
  case (Cons x xs)
  then obtain y ys where "f x = Inr y" "sequenceE (map f xs) = Inr ys"
    by (meson list.set_intros)
  then show ?case by simp
qed

lemma convertible_toString: "convertible v \<Longrightarrow> \<exists>s. toString v = Inr s"
proof (induction v rule: toString.induct)
  case (6 xs)
  have "\<exists>parts. sequenceE
          (map (\<lambda>x. if x = JUndefined \<or> x = JNull then Inr [] else toString x) xs) = Inr parts"
  proof (rule sequenceE_Inr)
    fix x assume x: "x \<in> set xs"
    show "\<exists>y. (if x = JUndefined \<or> x = JNull then Inr [] else toString x) = Inr y"
    proof (cases "x = JUndefined \<or> x = JNull")
      case True
      then show ?thesis by auto
    next
      case False
      moreover have "convertible x" using "6.prems" x by (simp add: list_all_iff)
      ultimately show ?thesis using "6.IH" [OF x] by simp
    qed
  qed
  then show ?case by auto
qed simp_all

lemma toString_convertible: "toString v = Inr s \<Longrightarrow> convertible v"
proof (induction v arbitrary: s rule: toString.induct)
  case (6 xs)
  from "6.prems" obtain parts where
    p: "sequenceE (map (\<lambda>x. if x = JUndefined \<or> x = JNull then Inr [] else toString x) xs) =
          Inr parts"
    by (auto split: sum.splits)
  have "convertible x" if "x \<in> set xs" for x
  proof (cases "x = JUndefined \<or> x = JNull")
    case True
    then show ?thesis by auto
  next
    case False
    have "\<exists>y. (if x = JUndefined \<or> x = JNull then Inr [] else toString x) = Inr y"
      using p that
    proof (induction xs arbitrary: parts)
      case Nil
      then show ?case by simp
    next
      case (Cons a xs)
      then show ?case by (auto split: sum.splits if_splits)
    qed
    with False obtain y where "toString x = Inr y" by auto
    with "6.IH" [OF that False] show ?thesis by simp
  qed
  then show ?case by (simp add: list_all_iff)
qed (simp_all split: if_splits)




lemma convertible_route: "convertible region \<Longrightarrow> \<exists>routing. route region = Inr routing"
  using convertible_toString [of region] by (auto simp: route_def)

text \<open>
  An object with a property \<^verbatim>\<open>toString\<close> of its own has no string and no number: as the
  duration of a record it makes the projection raise, and as the region of a request it
  ends the compare before any request is sent, with the 500 of the \<^verbatim>\<open>catch\<close> block.
\<close>

lemma own_toString_raises:
  "toString (JObj [(''toString'', JNum 1)]) = Inl TypeError"
  "toNumber stn (JObj [(''toString'', JNum 1)]) = Inl TypeError"
  "route (JObj [(''toString'', JNum 1)]) = Inl TypeError"
  "projectMatch stn (JStr ''lol'') p1 p2
     (JObj [(''metadata'', JObj [(''matchId'', JStr ''M'')]),
            (''info'', JObj [(''gameDuration'', JObj [(''toString'', JNum 1)]),
                             (''participants'', JArr [])])]) = Inl TypeError"
  by (simp_all add: toNumber_def route_def projectMatch_def findParticipant_def path_def
        getProp_def nullish_def member_def formatDuration_def)

lemma unconvertible_region_is_server_error:
  "POST (Some ''key'') stn U
     (Some (JObj [(''player1'', JStr ''Ann#NA1''), (''player2'', JStr ''Bob#NA1''),
                  (''region'', JObj [(''toString'', JNum 1)])])) s =
   Some (Reply 500 (ErrorJson EngineText), s)"
  by (simp add: POST_def tryBlock_def reconcile_def resolveAccounts_def getAccountByRiotId_def
        own_toString_raises nullish_def member_def splitPlayer_def element_def errorMessage_def)

section \<open>Properties of the region router\<close>

lemma route_JStr:
  "route (JStr key) =
     Inr (case map_of regionToRouting key of
            Some cluster \<Rightarrow> Cluster cluster
          | None \<Rightarrow>
              if key \<in> set objectPrototypeMembers then Inherited key else Cluster ''americas'')"
  by (simp add: route_def bindE_def)

lemma route_table:
  "map_of regionToRouting key = Some cluster \<Longrightarrow> route (JStr key) = Inr (Cluster cluster)"
  by (simp add: route_JStr)

lemma route_default:
  "map_of regionToRouting key = None \<Longrightarrow> key \<notin> set objectPrototypeMembers \<Longrightarrow>
   route (JStr key) = Inr (Cluster ''americas'')"
  by (simp add: route_JStr)

lemma route_na1: "route (JStr ''na1'') = Inr (Cluster ''americas'')"
  by (simp add: route_JStr regionToRouting_def)

text \<open>
  Claim C9: every region code is routed to a cluster, the unknown ones to the default
  cluster \<^verbatim>\<open>americas\<close>. The code misses the names that \<^verbatim>\<open>regionToRouting\<close> inherits: for
  the region \<^verbatim>\<open>constructor\<close> the lookup finds \<^verbatim>\<open>Object.prototype.constructor\<close>, which is
  truthy, so the default is not taken and the host of the account request is built from
  a function instead of a cluster; against an upstream that rejects such a request, as
  \<^verbatim>\<open>fetch\<close> does, the reply is the 500 of the \<^verbatim>\<open>catch\<close> block.
\<close>

theorem inherited_region_is_no_cluster:
  "route (JStr ''constructor'') = Inr (Inherited ''constructor'') \<and>
   route (JStr ''constructor'') \<noteq> Inr (Cluster ''americas'') \<and>
   snd (getAccountByRiotId U name tag (JStr ''constructor'') s) =
     snd (fetch (accounts U) (AccountReq (Inherited ''constructor'') name tag) s) \<and>
   POST (Some ''key'') stn (scenario record)
     (Some (JObj [(''player1'', JStr ''Ann#NA1''), (''player2'', JStr ''Bob#NA1''),
                  (''region'', JStr ''constructor'')]))
     \<lparr>up = (), trace = []\<rparr> =
   Some (Reply 500 (ErrorJson EngineText),
     \<lparr>up = (),
      trace = [Fetch (AccountReq (Inherited ''constructor'') ''Ann'' ''NA1''),
               Fetch (AccountReq (Inherited ''constructor'') ''Bob'' ''NA1'')]\<rparr>)"
proof -
  have r: "route (JStr ''constructor'') = Inr (Inherited ''constructor'')"
    by (simp add: route_JStr regionToRouting_def objectPrototypeMembers_def)
  have "snd (getAccountByRiotId U name tag (JStr ''constructor'') s) =
     snd (fetch (accounts U) (AccountReq (Inherited ''constructor'') name tag) s)"
    by (simp add: getAccountByRiotId_def r split: prod.splits sum.splits)
  moreover have "POST (Some ''key'') stn (scenario record)
     (Some (JObj [(''player1'', JStr ''Ann#NA1''), (''player2'', JStr ''Bob#NA1''),
                  (''region'', JStr ''constructor'')]))
     \<lparr>up = (), trace = []\<rparr> =
   Some (Reply 500 (ErrorJson EngineText),
     \<lparr>up = (),
      trace = [Fetch (AccountReq (Inherited ''constructor'') ''Ann'' ''NA1''),
               Fetch (AccountReq (Inherited ''constructor'') ''Bob'' ''NA1'')]\<rparr>)"
    by (simp add: POST_def tryBlock_def reconcile_def resolveAccounts_def getAccountByRiotId_def
          r nullish_def member_def splitPlayer_def element_def fetch_def scenario_def
          errorMessage_def)
  ultimately show ?thesis using r by simp
qed

section \<open>Properties of the validation\<close>

lemma split_first:
  "split c xs =
     takeWhile (\<lambda>x. x \<noteq> c) xs #
       (case dropWhile (\<lambda>x. x \<noteq> c) xs of [] \<Rightarrow> [] | y # rest \<Rightarrow> split c rest)"
  by (induction xs) (auto split: list.splits)

lemma split_not_Nil: "split c xs \<noteq> []"
  by (subst split_first) simp

lemma hd_split: "hd (split c xs) = takeWhile (\<lambda>x. x \<noteq> c) xs"
  by (subst split_first) simp

lemma element_split_0: "element (split c xs) 0 = Some (takeWhile (\<lambda>x. x \<noteq> c) xs)"
  by (subst split_first) (simp add: element_def)

lemma element_split_1:
  "element (split c xs) 1 =
     (if c \<in> set xs then Some (takeWhile (\<lambda>x. x \<noteq> c) (tl (dropWhile (\<lambda>x. x \<noteq> c) xs)))
      else None)"
proof (cases "dropWhile (\<lambda>x. x \<noteq> c) xs")
  case Nil
  then have "c \<notin> set xs" by (auto simp: dropWhile_eq_Nil_conv)
  have "split c xs = [takeWhile (\<lambda>x. x \<noteq> c) xs]"
    by (subst split_first) (simp only: Nil list.case)
  with \<open>c \<notin> set xs\<close> show ?thesis
    by (simp add: element_def)
next
  case (Cons y rest)
  have y: "y = c"
    using hd_dropWhile [of "\<lambda>x. x \<noteq> c" xs] Cons by simp
  have "c \<in> set xs"
    using set_dropWhileD [of c "\<lambda>x. x \<noteq> c" xs] by (simp only: Cons y list.set_intros)
  moreover have "split c xs = takeWhile (\<lambda>x. x \<noteq> c) xs # split c rest"
    by (subst split_first) (simp only: Cons list.case)
  moreover have "split c rest ! 0 = takeWhile (\<lambda>x. x \<noteq> c) rest"
    using hd_conv_nth [OF split_not_Nil, of c rest] hd_split [of c rest] by simp
  moreover have "tl (dropWhile (\<lambda>x. x \<noteq> c) xs) = rest"
    by (simp only: Cons list.sel)
  ultimately show ?thesis
    by (simp add: element_def split_not_Nil)
qed

lemma invalid_format_is_rejected:
  assumes "key \<noteq> []" and "\<not> nullish b"
    and "member b ''player1'' = JStr p1" and "member b ''player2'' = JStr p2"
    and "invalidPlayer p1 \<or> invalidPlayer p2"
  shows "POST (Some key) stn U (Some b) s =
         Some (Reply 400 (ErrorJson (Text ''Invalid player format. Use: Name#TAG'')), s)"
  using assms
  by (auto simp: POST_def tryBlock_def splitPlayer_def element_split_0 invalidPlayer_def
      element_split_1 [unfolded One_nat_def] split: option.splits if_splits)

text \<open>
  The example of the specification: \<^verbatim>\<open>NoTagHere\<close> is rejected, whatever the upstream and
  without a call of it.
\<close>

lemma no_tag_example:
  "POST (Some ''key'') stn U
     (Some (JObj [(''player1'', JStr ''NoTagHere''), (''player2'', JStr ''Valid#TAG''),
                  (''region'', JStr ''na1''), (''mode'', JStr ''lol'')])) s =
   Some (Reply 400 (ErrorJson (Text ''Invalid player format. Use: Name#TAG'')), s)"
  by (rule invalid_format_is_rejected [where ?p1.0 = "''NoTagHere''" and ?p2.0 = "''Valid#TAG''"])
     (simp_all add: nullish_def member_def invalidPlayer_def)

text \<open>
  Claim C6: a request in which a player is missing, has no \<^verbatim>\<open>#\<close> or has an empty half is
  answered 400 before any upstream call. The code does so when both players are strings
  (\<open>invalid_format_is_rejected\<close>), but a missing player is \<^verbatim>\<open>undefined\<close>, and
  \<^verbatim>\<open>player1.split("#")\<close> throws a TypeError before the check of the format is reached: the
  reply is the 500 of the \<^verbatim>\<open>catch\<close> block with the message of the engine.
\<close>

theorem missing_player_is_server_error:
  "POST (Some ''key'') stn U
     (Some (JObj [(''player2'', JStr ''Valid#TAG''), (''region'', JStr ''na1'')])) s =
   Some (Reply 500 (ErrorJson EngineText), s)"
  by (simp add: POST_def tryBlock_def nullish_def member_def splitPlayer_def errorMessage_def)

section \<open>Properties of the projection\<close>

















text \<open>The definitions that evaluate a run of the handler against a scenario.\<close>

lemmas eval_defs = POST_def tryBlock_def reconcile_def nullish_def member_def splitPlayer_def element_def scenarioBody_def
       resolveAccounts_def getAccountByRiotId_def fetch_def scenario_def okResponse_def ok_def route_def regionToRouting_def
       getMatchHistory_def history_loop.simps getMatchDetails_def sleep_def classicRecord_def projectMatch_def path_def
       findParticipant_def bindE_def getProp_def optProp_def formatDuration_def toNumber_def numberToString_def digits.simps
       Let_def errorMessage_def malformedRecord_def

text \<open>The accounts and the histories of the scenario, whatever the records are.\<close>

lemmas scenario_defs = annAccount_def bobAccount_def scenarioSummary_def scenarioResult_def
  scenarioEvents_def

lemma scenario_accounts:
  "resolveAccounts (scenario record) ''Ann'' ''NA1'' ''Bob'' ''NA1''
     (JStr ''na1'') \<lparr>up = (), trace = []\<rparr> =
   (Inr (annAccount, bobAccount), \<lparr>up = (), trace = take 2 scenarioEvents\<rparr>)"
  by (simp add: eval_defs scenario_defs)

lemma scenario_history1:
  "getMatchHistory (scenario record) (puuid annAccount) (JStr ''na1'')
     (JStr ''lol'') 500 \<lparr>up = (), trace = take 2 scenarioEvents\<rparr> =
   Some (Inr [''A'', ''B'', ''C'', ''D''], \<lparr>up = (), trace = take 3 scenarioEvents\<rparr>)"
  by (simp add: eval_defs scenario_defs)

lemma scenario_history2:
  "getMatchHistory (scenario record) (puuid bobAccount) (JStr ''na1'')
     (JStr ''lol'') 500 \<lparr>up = (), trace = take 3 scenarioEvents\<rparr> =
   Some (Inr [''X'', ''B'', ''Y'', ''D''], \<lparr>up = (), trace = take 4 scenarioEvents\<rparr>)"
  by (simp add: eval_defs scenario_defs)




text \<open>
  Claim C7, as the specification states it: the timestamp of a summary is in
  milliseconds, the unit of the upstream (seconds in one of the modes) being normalised.
  The handler converts nothing: an upstream time of 1700000000 seconds is the timestamp
  1700000000 of the summary in either mode, not 1700000000000.
\<close>

theorem timestamp_in_seconds_counterexample:
  "projectMatch (\<lambda>s. None) (JStr ''tft'') ''puuid-Ann'' ''puuid-Bob'' (autoBattlerRecord ''B'') =
     Inr (JObj
       [(''matchId'', JStr ''B''),
        (''gameMode'', JStr ''Set 9''),
        (''timestamp'', JNum 1700000000),
        (''duration'', JStr ''35m 57s''),
        (''players'', JObj
           [(''player1'', JObj [(''placement'', JNum 1),
                                (''traits'', JStr ''Set9_Ionia, Set9_Sorcerer'')]),
            (''player2'', JObj [(''placement'', JNum 5), (''traits'', JStr ''N/A'')])])]) \<and>
   projectMatch (\<lambda>s. None) (JStr ''lol'') ''puuid-Ann'' ''puuid-Bob''
     (classicRecord 1700000000 ''B'') =
     Inr (JObj
       [(''matchId'', JStr ''B''),
        (''gameMode'', JStr ''CLASSIC''),
        (''timestamp'', JNum 1700000000),
        (''duration'', JStr ''30m 34s''),
        (''players'', JObj
           [(''player1'', JObj [(''champion'', JStr ''Ahri''), (''team'', JNum 100)]),
            (''player2'', JObj [(''champion'', JStr ''Zed''), (''team'', JNum 200)])])])"
  by (simp add: projectMatch_def path_def autoBattlerRecord_def classicRecord_def findParticipant_def
        bindE_def getProp_def optProp_def nullish_def member_def traitNames_def arrayJoin_def
        truthy_def formatDuration_def toNumber_def numberToString_def digits.simps Let_def)

text \<open>
  Claim C7, amended: in every mode the timestamp of a summary is the upstream's field
  unchanged, \<^verbatim>\<open>info.game_datetime\<close> in the auto-battler mode and
  \<^verbatim>\<open>info.gameStartTimestamp\<close> otherwise; it is in milliseconds exactly when the upstream
  gives milliseconds.
\<close>

theorem timestamp_is_passed_through:
  assumes "projectMatch stn mode p1 p2 match = Inr summary"
  shows "member summary ''timestamp'' =
         member (member match ''info'')
           (if mode = JStr ''tft'' then ''game_datetime'' else ''gameStartTimestamp'')"
proof (cases "mode = JStr ''tft''")
  case True
  with assms show ?thesis
    by (auto simp: projectMatch_def path_def getProp_def member_def dest!: bindE_Inr split: if_splits)
next
  case False
  with assms show ?thesis
    by (auto simp: projectMatch_def path_def getProp_def member_def dest!: bindE_Inr split: if_splits)
qed

theorem timestamp_is_passed_through_witness:
  "projectMatch (\<lambda>s. None) (JStr ''lol'') ''puuid-Ann'' ''puuid-Bob''
     (classicRecord 1700000000000 ''B'') =
     Inr (JObj
       [(''matchId'', JStr ''B''),
        (''gameMode'', JStr ''CLASSIC''),
        (''timestamp'', JNum 1700000000000),
        (''duration'', JStr ''30m 34s''),
        (''players'', JObj
           [(''player1'', JObj [(''champion'', JStr ''Ahri''), (''team'', JNum 100)]),
            (''player2'', JObj [(''champion'', JStr ''Zed''), (''team'', JNum 200)])])]) \<and>
   member (JObj
       [(''matchId'', JStr ''B''),
        (''gameMode'', JStr ''CLASSIC''),
        (''timestamp'', JNum 1700000000000),
        (''duration'', JStr ''30m 34s''),
        (''players'', JObj
           [(''player1'', JObj [(''champion'', JStr ''Ahri''), (''team'', JNum 100)]),
            (''player2'', JObj [(''champion'', JStr ''Zed''), (''team'', JNum 200)])])])
     ''timestamp'' =
   member (member (classicRecord 1700000000000 ''B'') ''info'') ''gameStartTimestamp''"
proof -
  have h: "projectMatch (\<lambda>s. None) (JStr ''lol'') ''puuid-Ann'' ''puuid-Bob''
     (classicRecord 1700000000000 ''B'') =
     Inr (JObj
       [(''matchId'', JStr ''B''),
        (''gameMode'', JStr ''CLASSIC''),
        (''timestamp'', JNum 1700000000000),
        (''duration'', JStr ''30m 34s''),
        (''players'', JObj
           [(''player1'', JObj [(''champion'', JStr ''Ahri''), (''team'', JNum 100)]),
            (''player2'', JObj [(''champion'', JStr ''Zed''), (''team'', JNum 200)])])])"
    by (simp add: eval_defs)
  show ?thesis
    using h timestamp_is_passed_through [OF h] by simp
qed

section \<open>Properties of the reconciliation\<close>

lemma getMatchHistory_route:
  "getMatchHistory U p region mode count s = Some (Inr matches, s') \<Longrightarrow>
   \<exists>routing. route region = Inr routing"
  by (cases "route region") (simp_all add: getMatchHistory_def)

lemma getAccountByRiotId_route:
  "getAccountByRiotId U name tag region s = (Inr account, s') \<Longrightarrow>
   \<exists>routing. route region = Inr routing"
  by (cases "route region") (simp_all add: getAccountByRiotId_def)

lemma resolveAccounts_route:
  "resolveAccounts U gameName1 tagLine1 gameName2 tagLine2 region s = (Inr resolved, s') \<Longrightarrow>
   \<exists>routing. route region = Inr routing"
  by (cases "route region")
     (auto simp: resolveAccounts_def getAccountByRiotId_def split: prod.splits sum.splits)

lemma getMatchDetails_trace:
  "route region = Inr routing \<Longrightarrow> getMatchDetails U i region mode s = (r, s') \<Longrightarrow>
   trace s' = trace s @
     [Fetch (DetailReq routing (if mode = JStr ''tft'' then ''tft'' else ''lol'')
        (if mode = JStr ''tft'' then ''v1'' else ''v5'') i)]"
  by (auto simp: getMatchDetails_def fetch_def Let_def split: prod.splits sum.splits if_splits)

lemma fetchSharedMatches_Inr:
  "route region = Inr routing \<Longrightarrow>
   fetchSharedMatches U region mode ids acc s = (Inr ms, s') \<Longrightarrow>
   \<exists>ds. ms = acc @ ds \<and>
     list_all2 (\<lambda>i match. \<exists>sk sk'. getMatchDetails U i region mode sk = (Inr match, sk')) ids ds \<and>
     trace s' = trace s @ concat (map (\<lambda>i.
       [Fetch (DetailReq routing (if mode = JStr ''tft'' then ''tft'' else ''lol'')
          (if mode = JStr ''tft'' then ''v1'' else ''v5'') i), Sleep 100]) ids)"
proof (induction ids arbitrary: acc s)
  case Nil
  then show ?case by simp
next
  case (Cons i ids)
  from Cons.prems obtain match s1 where
    d: "getMatchDetails U i region mode s = (Inr match, s1)"
    and rest: "fetchSharedMatches U region mode ids (acc @ [match]) (sleep 100 s1) = (Inr ms, s')"
    by (auto split: prod.splits sum.splits)
  from Cons.IH [OF Cons.prems(1) rest] obtain ds where ds: "ms = (acc @ [match]) @ ds"
    and all: "list_all2 (\<lambda>i match. \<exists>sk sk'. getMatchDetails U i region mode sk = (Inr match, sk'))
       ids ds"
    and tr: "trace s' = trace (sleep 100 s1) @ concat (map (\<lambda>i.
       [Fetch (DetailReq routing (if mode = JStr ''tft'' then ''tft'' else ''lol'')
          (if mode = JStr ''tft'' then ''v1'' else ''v5'') i), Sleep 100]) ids)"
    by blast
  have "ms = acc @ (match # ds)" using ds by simp
  moreover have "list_all2 (\<lambda>i match. \<exists>sk sk'. getMatchDetails U i region mode sk = (Inr match, sk'))
       (i # ids) (match # ds)"
    using all d by auto
  moreover have "trace s' = trace s @ concat (map (\<lambda>i.
       [Fetch (DetailReq routing (if mode = JStr ''tft'' then ''tft'' else ''lol'')
          (if mode = JStr ''tft'' then ''v1'' else ''v5'') i), Sleep 100]) (i # ids))"
    using tr getMatchDetails_trace [OF Cons.prems(1) d] by (simp add: sleep_def)
  ultimately show ?case by blast
qed

lemma mapE_Inr:
  "mapE f xs = Inr ys \<Longrightarrow> list_all2 (\<lambda>x y. f x = Inr y) xs ys"
  by (induction xs arbitrary: ys) (auto split: sum.splits)

lemma reconcile_Inr:
  assumes acc: "resolveAccounts U gameName1 tagLine1 gameName2 tagLine2 region s =
                  (Inr (account1, account2), s1)"
    and r: "reconcile stn U gameName1 tagLine1 gameName2 tagLine2 region mode s =
              Some (Inr reply, s')"
  shows "\<exists>matches1 matches2 s2 s3 sharedMatches matchData.
     getMatchHistory U (puuid account1) region mode 500 s1 = Some (Inr matches1, s2) \<and>
     getMatchHistory U (puuid account2) region mode 500 s2 = Some (Inr matches2, s3) \<and>
     fetchSharedMatches U region mode (filter (\<lambda>i. i \<in> set matches2) matches1) [] s3 =
       (Inr sharedMatches, s') \<and>
     mapE (projectMatch stn mode (puuid account1) (puuid account2)) sharedMatches = Inr matchData \<and>
     reply = Reply 200 (Json (JObj
            [(''player1'', JObj [(''gameName'', JStr (gameName account1)),
                                 (''tagLine'', JStr (tagLine account1))]),
             (''player2'', JObj [(''gameName'', JStr (gameName account2)),
                                 (''tagLine'', JStr (tagLine account2))]),
             (''matches'', JArr matchData)]))"
  using r unfolding reconcile_def acc
  by (auto simp: Let_def split: option.splits sum.splits prod.splits)


lemma scenario_reconcile:
  "reconcile (\<lambda>s. None) (scenario (classicRecord 1700000000000)) ''Ann'' ''NA1'' ''Bob'' ''NA1''
     (JStr ''na1'') (JStr ''lol'') \<lparr>up = (), trace = []\<rparr> =
   Some (Inr (Reply 200 (Json scenarioResult)), \<lparr>up = (), trace = scenarioEvents\<rparr>)"
  by (simp add: eval_defs scenario_defs)

text \<open>
  Claim C1: for every pair of match-ID lists returned for the two players, the
  \<^verbatim>\<open>matches\<close> of the reply hold exactly one summary for each element of the ordered
  intersection (the IDs of the first list that occur in the second, in the order of the
  first list): the record of each shared ID is fetched in that order, and the summaries
  are the projections of these records, in that order. In the scenario of the
  specification the histories \<^verbatim>\<open>[A,B,C,D]\<close> and \<^verbatim>\<open>[X,B,Y,D]\<close> give the summaries of
  \<^verbatim>\<open>B\<close> and \<^verbatim>\<open>D\<close>.
\<close>

theorem matches_follow_shared_ids:
  assumes acc: "resolveAccounts U gameName1 tagLine1 gameName2 tagLine2 region s =
                  (Inr (account1, account2), s1)"
    and h1: "getMatchHistory U (puuid account1) region mode 500 s1 = Some (Inr matches1, s2)"
    and h2: "getMatchHistory U (puuid account2) region mode 500 s2 = Some (Inr matches2, s3)"
    and r: "reconcile stn U gameName1 tagLine1 gameName2 tagLine2 region mode s =
              Some (Inr (Reply code (Json result)), s')"
  shows "\<exists>sharedMatches matchData routing.
     route region = Inr routing \<and>
     member result ''matches'' = JArr matchData \<and>
     length matchData = length (filter (\<lambda>i. i \<in> set matches2) matches1) \<and>
     list_all2 (\<lambda>i match. \<exists>sk sk'. getMatchDetails U i region mode sk = (Inr match, sk'))
       (filter (\<lambda>i. i \<in> set matches2) matches1) sharedMatches \<and>
     list_all2 (\<lambda>match summary.
         projectMatch stn mode (puuid account1) (puuid account2) match = Inr summary)
       sharedMatches matchData \<and>
     trace s' = trace s3 @ concat (map (\<lambda>i.
       [Fetch (DetailReq routing (if mode = JStr ''tft'' then ''tft'' else ''lol'')
          (if mode = JStr ''tft'' then ''v1'' else ''v5'') i), Sleep 100])
       (filter (\<lambda>i. i \<in> set matches2) matches1))"
proof -
  let ?shared = "filter (\<lambda>i. i \<in> set matches2) matches1"
  from getMatchHistory_route [OF h1] obtain routing where rt: "route region = Inr routing"
    by blast
  from reconcile_Inr [OF acc r] h1 h2 obtain sharedMatches matchData where
    f: "fetchSharedMatches U region mode ?shared [] s3 = (Inr sharedMatches, s')"
    and m: "mapE (projectMatch stn mode (puuid account1) (puuid account2)) sharedMatches =
              Inr matchData"
    and res: "result = JObj
            [(''player1'', JObj [(''gameName'', JStr (gameName account1)),
                                 (''tagLine'', JStr (tagLine account1))]),
             (''player2'', JObj [(''gameName'', JStr (gameName account2)),
                                 (''tagLine'', JStr (tagLine account2))]),
             (''matches'', JArr matchData)]"
    by auto
  from fetchSharedMatches_Inr [OF rt f]
  have d: "list_all2 (\<lambda>i match. \<exists>sk sk'. getMatchDetails U i region mode sk = (Inr match, sk'))
       ?shared sharedMatches"
    and tr: "trace s' = trace s3 @ concat (map (\<lambda>i.
       [Fetch (DetailReq routing (if mode = JStr ''tft'' then ''tft'' else ''lol'')
          (if mode = JStr ''tft'' then ''v1'' else ''v5'') i), Sleep 100]) ?shared)"
    by auto
  have p: "list_all2 (\<lambda>match summary.
         projectMatch stn mode (puuid account1) (puuid account2) match = Inr summary)
       sharedMatches matchData"
    using mapE_Inr [OF m] .
  have len: "length matchData = length ?shared"
    using list_all2_lengthD [OF d] list_all2_lengthD [OF p] by simp
  have "member result ''matches'' = JArr matchData"
    by (simp add: res member_def)
  with rt len d p tr show ?thesis by blast
qed

theorem matches_follow_shared_ids_witness:
  "resolveAccounts (scenario (classicRecord 1700000000000)) ''Ann'' ''NA1'' ''Bob'' ''NA1''
     (JStr ''na1'') \<lparr>up = (), trace = []\<rparr> =
     (Inr (annAccount, bobAccount), \<lparr>up = (), trace = take 2 scenarioEvents\<rparr>) \<and>
   getMatchHistory (scenario (classicRecord 1700000000000)) (puuid annAccount) (JStr ''na1'')
     (JStr ''lol'') 500 \<lparr>up = (), trace = take 2 scenarioEvents\<rparr> =
     Some (Inr [''A'', ''B'', ''C'', ''D''], \<lparr>up = (), trace = take 3 scenarioEvents\<rparr>) \<and>
   getMatchHistory (scenario (classicRecord 1700000000000)) (puuid bobAccount) (JStr ''na1'')
     (JStr ''lol'') 500 \<lparr>up = (), trace = take 3 scenarioEvents\<rparr> =
     Some (Inr [''X'', ''B'', ''Y'', ''D''], \<lparr>up = (), trace = take 4 scenarioEvents\<rparr>) \<and>
   reconcile (\<lambda>s. None) (scenario (classicRecord 1700000000000)) ''Ann'' ''NA1'' ''Bob'' ''NA1''
     (JStr ''na1'') (JStr ''lol'') \<lparr>up = (), trace = []\<rparr> =
     Some (Inr (Reply 200 (Json scenarioResult)), \<lparr>up = (), trace = scenarioEvents\<rparr>) \<and>
   filter (\<lambda>i. i \<in> set [''X'', ''B'', ''Y'', ''D'']) [''A'', ''B'', ''C'', ''D''] = [''B'', ''D''] \<and>
   (\<exists>matchData.
      member scenarioResult ''matches'' = JArr matchData \<and> length matchData = 2 \<and>
      matchData = [scenarioSummary ''B'', scenarioSummary ''D''])"
proof -
  have f: "filter (\<lambda>i. i \<in> set [''X'', ''B'', ''Y'', ''D'']) [''A'', ''B'', ''C'', ''D''] =
           [''B'', ''D'']"
    by simp
  have m: "member scenarioResult ''matches'' = JArr [scenarioSummary ''B'', scenarioSummary ''D'']"
    by (simp add: scenarioResult_def member_def)
  from matches_follow_shared_ids
    [OF scenario_accounts scenario_history1 scenario_history2 scenario_reconcile]
  obtain matchData where "member scenarioResult ''matches'' = JArr matchData"
    and "length matchData = length
          (filter (\<lambda>i. i \<in> set [''X'', ''B'', ''Y'', ''D'']) [''A'', ''B'', ''C'', ''D''])"
    by blast
  then have "\<exists>matchData.
      member scenarioResult ''matches'' = JArr matchData \<and> length matchData = 2 \<and>
      matchData = [scenarioSummary ''B'', scenarioSummary ''D'']"
    using m by (simp add: f)
  then show ?thesis
    using scenario_accounts scenario_history1 scenario_history2 scenario_reconcile f by blast
qed

lemma projectMatch_fields:
  assumes "projectMatch stn mode p1 p2 match = Inr summary"
  shows "summaryFields mode summary"
proof (cases "mode = JStr ''tft''")
  case True
  with assms show ?thesis
    by (auto simp: projectMatch_def path_def summaryFields_def fields_def member_def dest!: bindE_Inr)
next
  case False
  with assms show ?thesis
    by (auto simp: projectMatch_def path_def summaryFields_def fields_def member_def dest!: bindE_Inr)
qed

lemma reconcile_resolved:
  assumes "reconcile stn U gameName1 tagLine1 gameName2 tagLine2 region mode s =
             Some (Inr reply, s')"
  shows "\<exists>account1 account2 s1.
     resolveAccounts U gameName1 tagLine1 gameName2 tagLine2 region s =
       (Inr (account1, account2), s1)"
  using assms
  by (cases "resolveAccounts U gameName1 tagLine1 gameName2 tagLine2 region s")
     (auto simp: reconcile_def split: sum.splits)

lemma reconcile_reply:
  assumes acc: "resolveAccounts U gameName1 tagLine1 gameName2 tagLine2 region s =
                  (Inr (account1, account2), s1)"
    and r: "reconcile stn U gameName1 tagLine1 gameName2 tagLine2 region mode s =
              Some (Inr (Reply code content), s')"
  shows "\<exists>sharedMatches matchData.
     code = 200 \<and>
     content = Json (JObj
       [(''player1'', JObj [(''gameName'', JStr (gameName account1)),
                            (''tagLine'', JStr (tagLine account1))]),
        (''player2'', JObj [(''gameName'', JStr (gameName account2)),
                            (''tagLine'', JStr (tagLine account2))]),
        (''matches'', JArr matchData)]) \<and>
     mapE (projectMatch stn mode (puuid account1) (puuid account2)) sharedMatches =
       Inr matchData \<and>
     list_all (summaryFields mode) matchData"
proof -
  from reconcile_Inr [OF acc r] obtain sharedMatches matchData where
    m: "mapE (projectMatch stn mode (puuid account1) (puuid account2)) sharedMatches =
              Inr matchData"
    and res: "Reply code content = Reply 200 (Json (JObj
            [(''player1'', JObj [(''gameName'', JStr (gameName account1)),
                                 (''tagLine'', JStr (tagLine account1))]),
             (''player2'', JObj [(''gameName'', JStr (gameName account2)),
                                 (''tagLine'', JStr (tagLine account2))]),
             (''matches'', JArr matchData)]))"
    by auto
  have "list_all (summaryFields mode) matchData"
    using mapE_Inr [OF m] projectMatch_fields [of stn mode "puuid account1" "puuid account2"]
    by (fastforce simp: list_all_iff list_all2_conv_all_nth in_set_conv_nth)
  with res m show ?thesis by auto
qed



subsection \<open>A match record with other puuids\<close>




lemma nullish_mapField [simp]: "nullish (mapField k g v) = nullish v"
  by (cases v) (simp_all add: nullish_def mapField_def)











section \<open>Properties of the mode\<close>

lemma getMatchHistory_classic:
  "mode \<noteq> JStr ''tft'' \<Longrightarrow>
   getMatchHistory U p region mode count s =
     (case route region of
        Inl e \<Rightarrow> Some (Inl e, s)
      | Inr routing \<Rightarrow> history_loop U routing ''lol'' p count 0 [] s)"
  by (simp add: getMatchHistory_def Let_def cong: sum.case_cong)

lemma getMatchDetails_classic:
  "mode \<noteq> JStr ''tft'' \<Longrightarrow>
   getMatchDetails U i region mode s =
     (case route region of
        Inl e \<Rightarrow> (Inl e, s)
      | Inr routing \<Rightarrow> classicDetails U routing i s)"
  by (simp add: getMatchDetails_def classicDetails_def Let_def cong: sum.case_cong)

lemma projectMatch_classic:
  "mode \<noteq> JStr ''tft'' \<Longrightarrow> projectMatch stn mode p1 p2 match = classicSummary stn p1 p2 match"
  by (simp add: projectMatch_def classicSummary_def)

lemma fetchSharedMatches_classic:
  assumes "mode \<noteq> JStr ''tft''" and "route region = Inr routing"
  shows "fetchSharedMatches U region mode ids acc s =
         (case classicRecords U routing ids s of
            (Inl e, s') \<Rightarrow> (Inl e, s')
          | (Inr matches, s') \<Rightarrow> (Inr (acc @ matches), s'))"
proof (induction ids arbitrary: acc s)
  case Nil
  show ?case by simp
next
  case (Cons i ids)
  have d: "getMatchDetails U i region mode s = classicDetails U routing i s"
    using assms by (simp add: getMatchDetails_classic)
  show ?case
    by (simp add: d Cons.IH split: prod.splits sum.splits)
qed

lemma reconcile_classic:
  assumes "mode \<noteq> JStr ''tft''"
  shows "reconcile stn U gameName1 tagLine1 gameName2 tagLine2 region mode s =
         classicCompare stn U gameName1 tagLine1 gameName2 tagLine2 region s"
proof (cases "resolveAccounts U gameName1 tagLine1 gameName2 tagLine2 region s")
  case (Pair r s1)
  show ?thesis
  proof (cases r)
    case (Inl e)
    with Pair show ?thesis by (simp add: reconcile_def classicCompare_def)
  next
    case (Inr resolved)
    from resolveAccounts_route [OF Pair [unfolded Inr]] obtain routing where
      rt: "route region = Inr routing" by blast
    have p: "projectMatch stn mode p1 p2 = classicSummary stn p1 p2" for p1 p2
      using assms by (intro ext) (rule projectMatch_classic)
    show ?thesis
      using assms
      by (simp add: reconcile_def classicCompare_def Pair Inr rt getMatchHistory_def p
            fetchSharedMatches_classic [OF assms rt]
          split: prod.splits sum.splits option.splits)
  qed
qed

lemma split_no_separator: "c \<notin> set xs \<Longrightarrow> split c xs = [xs]"
  by (induction xs) auto

lemma split_name_tag:
  "c \<notin> set name \<Longrightarrow> c \<notin> set tag \<Longrightarrow> split c (name @ c # tag) = [name, tag]"
  by (induction name) (auto simp: split_no_separator)

text \<open>
  A request with two players of the form \<^verbatim>\<open>Name#TAG\<close> is answered by the
  reconciliation; the mode is the one of the body, and \<^verbatim>\<open>"lol"\<close> when the body has none.
\<close>

lemma POST_players:
  assumes "key \<noteq> []"
    and "member b ''player1'' = JStr (gameName1 @ CHR ''#'' # tagLine1)"
    and "member b ''player2'' = JStr (gameName2 @ CHR ''#'' # tagLine2)"
    and "CHR ''#'' \<notin> set gameName1" "CHR ''#'' \<notin> set tagLine1"
    and "CHR ''#'' \<notin> set gameName2" "CHR ''#'' \<notin> set tagLine2"
    and "gameName1 \<noteq> []" "tagLine1 \<noteq> []" "gameName2 \<noteq> []" "tagLine2 \<noteq> []"
  shows "POST (Some key) stn U (Some b) s =
         (case reconcile stn U gameName1 tagLine1 gameName2 tagLine2 (member b ''region'')
                 (if member b ''mode'' = JUndefined then JStr ''lol'' else member b ''mode'') s of
            None \<Rightarrow> None
          | Some (Inl error, s') \<Rightarrow> Some (Reply 500 (ErrorJson (errorMessage error)), s')
          | Some (Inr reply, s') \<Rightarrow> Some (reply, s'))"
proof -
  have n: "\<not> nullish b"
    using assms(2) by (auto simp: nullish_def member_def)
  show ?thesis
    using assms n
    by (simp add: POST_def tryBlock_def splitPlayer_def split_name_tag element_def Let_def)
qed

lemma reconcile_code:
  assumes "reconcile stn U gameName1 tagLine1 gameName2 tagLine2 region mode s =
             Some (Inr (Reply code content), s')"
  shows "code = 200"
proof -
  from reconcile_resolved [OF assms] obtain account1 account2 s1 where
    "resolveAccounts U gameName1 tagLine1 gameName2 tagLine2 region s =
       (Inr (account1, account2), s1)"
    by blast
  from reconcile_reply [OF this assms] show ?thesis by blast
qed

lemma scenario_classicCompare:
  "classicCompare (\<lambda>s. None) (scenario (classicRecord 1700000000000)) ''Ann'' ''NA1'' ''Bob''
     ''NA1'' (JStr ''na1'') \<lparr>up = (), trace = []\<rparr> =
   Some (Inr (Reply 200 (Json scenarioResult)), \<lparr>up = (), trace = scenarioEvents\<rparr>)"
  by (simp add: classicCompare_def classicDetails_def classicSummary_def eval_defs scenario_defs)

text \<open>
  Claim C10: the mode is never rejected, and a mode that is absent or is any value other
  than \<^verbatim>\<open>"tft"\<close> is the classic mode. For such a mode the history is asked of the \<^verbatim>\<open>lol\<close>
  endpoint, the record of a match of the \<^verbatim>\<open>lol\<close> endpoint of version \<^verbatim>\<open>v5\<close>, the
  projection is the classic summary, and the reconciliation is the compare of the classic
  mode. A request of two players of the form \<^verbatim>\<open>Name#TAG\<close> is answered 200 or, when the
  compare raises, 500, whatever its mode is, and never 400; when its body has no mode or
  a mode other than \<^verbatim>\<open>"tft"\<close>, it is answered by the compare of the classic mode.
\<close>

theorem other_modes_are_classic:
  assumes "mode \<noteq> JStr ''tft''"
  shows "getMatchHistory U p region mode count s =
           (case route region of
              Inl e \<Rightarrow> Some (Inl e, s)
            | Inr routing \<Rightarrow> history_loop U routing ''lol'' p count 0 [] s) \<and>
         getMatchDetails U i region mode s =
           (case route region of
              Inl e \<Rightarrow> (Inl e, s)
            | Inr routing \<Rightarrow> classicDetails U routing i s) \<and>
         (\<forall>routing. route region = Inr routing \<longrightarrow>
            snd (getMatchDetails U i region mode s) =
            snd (fetch (matchDetail U) (DetailReq routing ''lol'' ''v5'' i) s)) \<and>
         projectMatch stn mode p1 p2 match = classicSummary stn p1 p2 match \<and>
         reconcile stn U gameName1 tagLine1 gameName2 tagLine2 region mode s =
           classicCompare stn U gameName1 tagLine1 gameName2 tagLine2 region s \<and>
         (\<forall>key b.
            key \<noteq> [] \<and>
            member b ''player1'' = JStr (gameName1 @ CHR ''#'' # tagLine1) \<and>
            member b ''player2'' = JStr (gameName2 @ CHR ''#'' # tagLine2) \<and>
            CHR ''#'' \<notin> set gameName1 \<and> CHR ''#'' \<notin> set tagLine1 \<and>
            CHR ''#'' \<notin> set gameName2 \<and> CHR ''#'' \<notin> set tagLine2 \<and>
            gameName1 \<noteq> [] \<and> tagLine1 \<noteq> [] \<and> gameName2 \<noteq> [] \<and> tagLine2 \<noteq> [] \<longrightarrow>
            (\<forall>code content s'.
               POST (Some key) stn U (Some b) s = Some (Reply code content, s') \<longrightarrow>
               code = 200 \<or> code = 500) \<and>
            (member b ''mode'' = JUndefined \<or> member b ''mode'' = mode \<longrightarrow>
             POST (Some key) stn U (Some b) s =
               (case classicCompare stn U gameName1 tagLine1 gameName2 tagLine2
                       (member b ''region'') s of
                  None \<Rightarrow> None
                | Some (Inl error, s') \<Rightarrow> Some (Reply 500 (ErrorJson (errorMessage error)), s')
                | Some (Inr reply, s') \<Rightarrow> Some (reply, s'))))"
proof (intro conjI allI impI)
  show "getMatchHistory U p region mode count s =
           (case route region of
              Inl e \<Rightarrow> Some (Inl e, s)
            | Inr routing \<Rightarrow> history_loop U routing ''lol'' p count 0 [] s)"
    using assms by (rule getMatchHistory_classic)
  show d: "getMatchDetails U i region mode s =
           (case route region of
              Inl e \<Rightarrow> (Inl e, s)
            | Inr routing \<Rightarrow> classicDetails U routing i s)"
    using assms by (rule getMatchDetails_classic)
  show "snd (getMatchDetails U i region mode s) =
            snd (fetch (matchDetail U) (DetailReq routing ''lol'' ''v5'' i) s)"
    if "route region = Inr routing" for routing
    using that by (simp add: d classicDetails_def split: prod.splits sum.splits)
  show "projectMatch stn mode p1 p2 match = classicSummary stn p1 p2 match"
    using assms by (rule projectMatch_classic)
  show "reconcile stn U gameName1 tagLine1 gameName2 tagLine2 region mode s =
           classicCompare stn U gameName1 tagLine1 gameName2 tagLine2 region s"
    using assms by (rule reconcile_classic)
next
  fix key :: string and b :: jv
  assume h: "key \<noteq> [] \<and>
            member b ''player1'' = JStr (gameName1 @ CHR ''#'' # tagLine1) \<and>
            member b ''player2'' = JStr (gameName2 @ CHR ''#'' # tagLine2) \<and>
            CHR ''#'' \<notin> set gameName1 \<and> CHR ''#'' \<notin> set tagLine1 \<and>
            CHR ''#'' \<notin> set gameName2 \<and> CHR ''#'' \<notin> set tagLine2 \<and>
            gameName1 \<noteq> [] \<and> tagLine1 \<noteq> [] \<and> gameName2 \<noteq> [] \<and> tagLine2 \<noteq> []"
  let ?mode = "if member b ''mode'' = JUndefined then JStr ''lol'' else member b ''mode''"
  have r: "POST (Some key) stn U (Some b) s =
         (case reconcile stn U gameName1 tagLine1 gameName2 tagLine2 (member b ''region'') ?mode s of
            None \<Rightarrow> None
          | Some (Inl error, s') \<Rightarrow> Some (Reply 500 (ErrorJson (errorMessage error)), s')
          | Some (Inr reply, s') \<Rightarrow> Some (reply, s'))"
    using h by (intro POST_players) simp_all
  show "code = 200 \<or> code = 500"
    if "POST (Some key) stn U (Some b) s = Some (Reply code content, s')" for code content s'
    using that
      reconcile_code [of stn U gameName1 tagLine1 gameName2 tagLine2 "member b ''region''" ?mode s]
    unfolding r
    by (auto split: option.splits prod.splits sum.splits)
  show "POST (Some key) stn U (Some b) s =
              (case classicCompare stn U gameName1 tagLine1 gameName2 tagLine2
                      (member b ''region'') s of
                 None \<Rightarrow> None
               | Some (Inl error, s') \<Rightarrow> Some (Reply 500 (ErrorJson (errorMessage error)), s')
               | Some (Inr reply, s') \<Rightarrow> Some (reply, s'))"
    if "member b ''mode'' = JUndefined \<or> member b ''mode'' = mode"
  proof -
    have m: "?mode \<noteq> JStr ''tft''"
      using that assms by auto
    show ?thesis
      unfolding r by (simp only: reconcile_classic [OF m])
  qed
qed

theorem other_modes_are_classic_witness:
  "JStr ''aram'' \<noteq> JStr ''tft'' \<and>
   member (JObj [(''player1'', JStr ''Ann#NA1''), (''player2'', JStr ''Bob#NA1''),
                 (''region'', JStr ''na1''), (''mode'', JStr ''aram'')]) ''mode'' = JStr ''aram'' \<and>
   member scenarioBody ''mode'' = JUndefined \<and>
   getMatchHistory (scenario (classicRecord 0)) ''puuid-Ann'' (JStr ''kr'') (JStr ''aram'') 500
       \<lparr>up = (), trace = []\<rparr> =
     Some (Inr [''A'', ''B'', ''C'', ''D''],
       \<lparr>up = (), trace = [Fetch (HistoryReq (Cluster ''asia'') ''lol'' ''puuid-Ann'' 0 100)]\<rparr>) \<and>
   getMatchDetails (scenario (classicRecord 0)) ''B'' (JStr ''kr'') (JStr ''aram'')
       \<lparr>up = (), trace = []\<rparr> =
     (Inr (classicRecord 0 ''B''),
       \<lparr>up = (), trace = [Fetch (DetailReq (Cluster ''asia'') ''lol'' ''v5'' ''B'')]\<rparr>) \<and>
   projectMatch (\<lambda>s. None) (JStr ''aram'') ''puuid-Ann'' ''puuid-Bob''
       (classicRecord 1700000000000 ''B'') = Inr (scenarioSummary ''B'') \<and>
   POST (Some ''key'') (\<lambda>s. None) (scenario (classicRecord 1700000000000))
       (Some (JObj [(''player1'', JStr ''Ann#NA1''), (''player2'', JStr ''Bob#NA1''),
                    (''region'', JStr ''na1''), (''mode'', JStr ''aram'')]))
       \<lparr>up = (), trace = []\<rparr> =
     Some (Reply 200 (Json scenarioResult), \<lparr>up = (), trace = scenarioEvents\<rparr>) \<and>
   POST (Some ''key'') (\<lambda>s. None) (scenario (classicRecord 1700000000000)) (Some scenarioBody)
       \<lparr>up = (), trace = []\<rparr> =
     Some (Reply 200 (Json scenarioResult), \<lparr>up = (), trace = scenarioEvents\<rparr>)"
proof -
  let ?b = "JObj [(''player1'', JStr ''Ann#NA1''), (''player2'', JStr ''Bob#NA1''),
                  (''region'', JStr ''na1''), (''mode'', JStr ''aram'')]"
  have m: "JStr ''aram'' \<noteq> JStr ''tft''"
    by simp
  have kr: "route (JStr ''kr'') = Inr (Cluster ''asia'')"
    by (simp add: route_JStr regionToRouting_def)
  note t = other_modes_are_classic [OF m, of "scenario (classicRecord 0)" "''puuid-Ann''"
      "JStr ''kr''" 500 "\<lparr>up = (), trace = []\<rparr>" "''B''" "\<lambda>s. None" "''puuid-Ann''" "''puuid-Bob''"
      "classicRecord 1700000000000 ''B''"]
    other_modes_are_classic [OF m, of "scenario (classicRecord 1700000000000)" _ _ _
      "\<lparr>up = (), trace = []\<rparr>" _ _ _ _ _ "''Ann''" "''NA1''" "''Bob''" "''NA1''"]
  have h: "getMatchHistory (scenario (classicRecord 0)) ''puuid-Ann'' (JStr ''kr'') (JStr ''aram'') 500
       \<lparr>up = (), trace = []\<rparr> =
     Some (Inr [''A'', ''B'', ''C'', ''D''],
       \<lparr>up = (), trace = [Fetch (HistoryReq (Cluster ''asia'') ''lol'' ''puuid-Ann'' 0 100)]\<rparr>)"
    by (subst t(1) [THEN conjunct1])
       (simp add: kr history_loop.simps fetch_def scenario_def okResponse_def ok_def)
  have d: "getMatchDetails (scenario (classicRecord 0)) ''B'' (JStr ''kr'') (JStr ''aram'')
       \<lparr>up = (), trace = []\<rparr> =
     (Inr (classicRecord 0 ''B''),
       \<lparr>up = (), trace = [Fetch (DetailReq (Cluster ''asia'') ''lol'' ''v5'' ''B'')]\<rparr>)"
    by (subst t(1) [THEN conjunct2, THEN conjunct1])
       (simp add: kr classicDetails_def fetch_def scenario_def okResponse_def ok_def)
  have p: "projectMatch (\<lambda>s. None) (JStr ''aram'') ''puuid-Ann'' ''puuid-Bob''
       (classicRecord 1700000000000 ''B'') = Inr (scenarioSummary ''B'')"
    by (subst t(1) [THEN conjunct2, THEN conjunct2, THEN conjunct2, THEN conjunct1])
       (simp add: classicSummary_def eval_defs scenario_defs)
  have b1: "member ?b ''mode'' = JStr ''aram''" and b2: "member scenarioBody ''mode'' = JUndefined"
    by (simp_all add: member_def scenarioBody_def)
  note post = t(2) [THEN conjunct2, THEN conjunct2, THEN conjunct2, THEN conjunct2, THEN conjunct2,
      rule_format, THEN conjunct2, rule_format]
  have p1: "POST (Some ''key'') (\<lambda>s. None) (scenario (classicRecord 1700000000000)) (Some ?b)
       \<lparr>up = (), trace = []\<rparr> =
     Some (Reply 200 (Json scenarioResult), \<lparr>up = (), trace = scenarioEvents\<rparr>)"
    by (subst post) (simp_all add: member_def scenario_classicCompare)
  have p2: "POST (Some ''key'') (\<lambda>s. None) (scenario (classicRecord 1700000000000))
       (Some scenarioBody) \<lparr>up = (), trace = []\<rparr> =
     Some (Reply 200 (Json scenarioResult), \<lparr>up = (), trace = scenarioEvents\<rparr>)"
    by (subst post) (simp_all add: member_def scenarioBody_def scenario_classicCompare)
  from m b1 b2 h d p p1 p2 show ?thesis by blast
qed

section \<open>Properties of the match history\<close>

lemma history_loop_step:
  "history_loop U routing gameType p count start allMatches s =
     (case history_step U routing gameType p count start allMatches s of
        Return r s' \<Rightarrow> Some (r, s')
      | Continue start' allMatches' s' \<Rightarrow>
          history_loop U routing gameType p count start' allMatches' s')"
  by (subst history_loop.simps)
     (simp add: history_step_def Let_def split: prod.splits sum.splits)

lemma history_loop_induct [consumes 1, case_names Return Continue]:
  assumes run: "history_loop U routing gameType p count start allMatches s = Some y"
    and ret: "\<And>start allMatches s r s'.
       history_step U routing gameType p count start allMatches s = Return r s' \<Longrightarrow>
       Q start allMatches s (r, s')"
    and cont: "\<And>start allMatches s start' allMatches' s' y.
       history_step U routing gameType p count start allMatches s = Continue start' allMatches' s' \<Longrightarrow>
       history_loop U routing gameType p count start' allMatches' s' = Some y \<Longrightarrow>
       Q start' allMatches' s' y \<Longrightarrow> Q start allMatches s y"
  shows "Q start allMatches s y"
proof -
  let ?P = "\<lambda>U' routing' gameType' p' count' start allMatches s y.
      U' = U \<longrightarrow> routing' = routing \<longrightarrow> gameType' = gameType \<longrightarrow> p' = p \<longrightarrow> count' = count \<longrightarrow>
      history_loop U routing gameType p count start allMatches s = Some y \<and> Q start allMatches s y"
  have "?P U routing gameType p count start allMatches s y"
  proof (rule history_loop.raw_induct [where P = ?P, OF _ run], intro impI, goal_cases)
    case (1 f U' routing' gameType' p' count' start allMatches s y)
    note IH = 1(1) and body = 1(2)
    show ?case
    proof (cases "history_step U routing gameType p count start allMatches s")
      case (Return r s')
      then have "y = (r, s')"
        using body 1(3-7)
        by (auto simp: history_step_def Let_def split: prod.splits sum.splits if_splits)
      then show ?thesis
        using Return ret [OF Return] by (simp add: history_loop_step [of U routing gameType p count start])
    next
      case (Continue start' allMatches' s')
      then have "f U routing gameType p count start' allMatches' s' = Some y"
        using body 1(3-7)
        by (auto simp: history_step_def Let_def split: prod.splits sum.splits if_splits)
      from IH [OF this] have l: "history_loop U routing gameType p count start' allMatches' s' = Some y"
        and q: "Q start' allMatches' s' y" by simp_all
      show ?thesis
        using Continue l cont [OF Continue l q]
        by (simp add: history_loop_step [of U routing gameType p count start])
    qed
  qed
  then show ?thesis by simp
qed


lemma history_loop_retry:
  assumes "start < count"
    and "matchIds U (up s) (HistoryReq R G P start (min 100 (count - start))) = (Inr r, w')"
    and "status r = 429"
  shows "history_loop U R G P count start all s =
         history_loop U R G P count start all
           \<lparr>up = w', trace = trace s @
              [Fetch (HistoryReq R G P start (min 100 (count - start))), Sleep 2000]\<rparr>"
  using assms
  by (subst history_loop_step) (auto simp: history_step_def fetch_def sleep_def ok_def Let_def)

lemma history_loop_fatal:
  assumes "start < count"
    and "matchIds U (up s) (HistoryReq R G P start (min 100 (count - start))) = (Inr r, w')"
    and "\<not> ok r" and "status r \<noteq> 429"
  shows "history_loop U R G P count start all s =
         Some (Inl (Error (''Failed to fetch match history: '' @ statusText r)),
           \<lparr>up = w', trace = trace s @
              [Fetch (HistoryReq R G P start (min 100 (count - start)))]\<rparr>)"
  using assms
  by (subst history_loop_step) (auto simp: history_step_def fetch_def Let_def)

lemma history_loop_empty:
  assumes "start < count"
    and "matchIds U (up s) (HistoryReq R G P start (min 100 (count - start))) = (Inr r, w')"
    and "ok r" and "payload r = []"
  shows "history_loop U R G P count start all s =
         Some (Inr all,
           \<lparr>up = w', trace = trace s @
              [Fetch (HistoryReq R G P start (min 100 (count - start)))]\<rparr>)"
  using assms
  by (subst history_loop_step) (auto simp: history_step_def fetch_def Let_def)

lemma history_loop_short:
  assumes "start < count"
    and "matchIds U (up s) (HistoryReq R G P start (min 100 (count - start))) = (Inr r, w')"
    and "ok r" and "payload r \<noteq> []" and "length (payload r) < min 100 (count - start)"
  shows "history_loop U R G P count start all s =
         Some (Inr (all @ payload r),
           \<lparr>up = w', trace = trace s @
              [Fetch (HistoryReq R G P start (min 100 (count - start)))]\<rparr>)"
  using assms
  by (subst history_loop_step) (auto simp: history_step_def fetch_def Let_def)

lemma history_loop_full:
  assumes "start < count"
    and "matchIds U (up s) (HistoryReq R G P start (min 100 (count - start))) = (Inr r, w')"
    and "ok r" and "\<not> length (payload r) < min 100 (count - start)"
  shows "history_loop U R G P count start all s =
         history_loop U R G P count (start + min 100 (count - start)) (all @ payload r)
           \<lparr>up = w', trace = trace s @
              [Fetch (HistoryReq R G P start (min 100 (count - start))), Sleep 100]\<rparr>"
  using assms
  by (subst history_loop_step) (auto simp: history_step_def fetch_def sleep_def Let_def)

text \<open>
  The loop returns whenever the upstream never answers 429: every other turn ends the
  loop or moves the offset on. Against an upstream that always answers 429 it never
  returns.
\<close>

lemma history_loop_returns:
  assumes "\<And>w req r w'. matchIds U w req = (Inr r, w') \<Longrightarrow> status r \<noteq> 429"
  shows "\<exists>y. history_loop U R G P count start all s = Some y"
proof (induction "count - start" arbitrary: start all s rule: less_induct)
  case less
  show ?case
  proof (cases "history_step U R G P count start all s")
    case (Return r s')
    then show ?thesis by (subst history_loop_step) simp
  next
    case (Continue start' all' s')
    then have "count - start' < count - start"
      using assms
      by (auto simp: history_step_def fetch_def Let_def split: if_splits prod.splits sum.splits)
    from less [OF this] Continue show ?thesis
      by (subst history_loop_step) simp
  qed
qed

lemma always_rate_limited:
  assumes "start < count"
  shows "history_loop (answering 429 msg) R G P count start all s = None"
proof (cases "history_loop (answering 429 msg) R G P count start all s")
  case None
  then show ?thesis .
next
  case (Some y)
  then have "\<not> start < count"
  proof (induction rule: history_loop_induct)
    case (Return start all s r s')
    then show ?case
      by (auto simp: history_step_def answering_def fetch_def ok_def Let_def split: if_splits)
  next
    case (Continue start all s start' all' s' y)
    then show ?case
      by (auto simp: history_step_def answering_def fetch_def ok_def Let_def split: if_splits)
  qed
  with assms show ?thesis by simp
qed

subsection \<open>An upstream behind a rate limiter\<close>

lemma not_passes: "\<not> passes ns \<Longrightarrow> \<exists>k ns'. ns = Suc k # ns'"
  by (cases ns) (auto simp: passes_def gr0_conv_Suc)

lemma throttled_pass:
  assumes "passes ns" and "up sT = (up sU, ns)"
  shows "agree (history_step (throttled U) R G P C start all sT)
               (history_step U R G P C start all sU) (if start < C then tl ns else ns)"
proof (cases "start < C")
  case False
  then show ?thesis using assms by (simp add: history_step_def agree_def)
next
  case True
  obtain r w' where f: "matchIds U (up sU) (HistoryReq R G P start (min 100 (C - start))) = (r, w')"
    by (cases "matchIds U (up sU) (HistoryReq R G P start (min 100 (C - start)))")
  have "matchIds (throttled U) (up sT) (HistoryReq R G P start (min 100 (C - start))) =
        (r, (w', tl ns))"
    using assms f by (auto simp: throttled_def passes_def split: list.splits)
  with f True show ?thesis
    by (auto simp: history_step_def agree_def fetch_def sleep_def Let_def split: sum.splits)
qed

lemma throttled_wait:
  assumes "start < C" and "up sT = (w, Suc k # ns)"
  shows "\<exists>sT'. history_step (throttled U) R G P C start all sT = Continue start all sT' \<and>
           up sT' = (w, k # ns)"
  using assms
  by (simp add: history_step_def throttled_def fetch_def sleep_def rateLimited_def ok_def)

lemma plain_to_throttled:
  assumes "history_loop U R G P C start all sU = Some y"
  shows "up sT = (up sU, ns) \<Longrightarrow>
         \<exists>sT'. history_loop (throttled U) R G P C start all sT = Some (fst y, sT') \<and>
                fst (up sT') = up (snd y)"
  using assms
proof (induction arbitrary: sT ns rule: history_loop_induct)
  case (Return start all sU r sU')
  show ?case using Return.prems
  proof (induction "case ns of [] \<Rightarrow> 0 | n # ns' \<Rightarrow> n" arbitrary: sT ns)
    case 0
    then have p: "passes ns" by (simp add: passes_def split: list.splits)
    from throttled_pass [OF p "0.prems", of U R G P C start all] Return.hyps
    show ?case
      by (subst history_loop_step) (auto simp: agree_def split: step.splits)
  next
    case (Suc k)
    then obtain ns' where ns: "ns = Suc k # ns'" by (auto split: list.splits)
    show ?case
    proof (cases "start < C")
      case True
      from throttled_wait [OF True Suc.prems [unfolded ns], of U R G P all]
      obtain sT' where st: "history_step (throttled U) R G P C start all sT = Continue start all sT'"
        and u: "up sT' = (up sU, k # ns')" by blast
      have "\<exists>sT''. history_loop (throttled U) R G P C start all sT' = Some (fst (r, sU'), sT'') \<and>
                fst (up sT'') = up (snd (r, sU'))"
        by (rule Suc.hyps(1) [OF _ u]) simp
      then show ?thesis
        by (subst history_loop_step) (simp add: st)
    next
      case False
      then have "r = Inr all" "sU' = sU"
        using Return.hyps by (simp_all add: history_step_def)
      with False Suc.prems show ?thesis
        by (subst history_loop_step) (simp add: history_step_def)
    qed
  qed
next
  case (Continue start all sU start' all' sU' y)
  have lt: "start < C"
    using Continue.hyps(1) by (auto simp: history_step_def split: if_splits)
  show ?case using Continue.prems
  proof (induction "case ns of [] \<Rightarrow> 0 | n # ns' \<Rightarrow> n" arbitrary: sT ns)
    case 0
    then have p: "passes ns" by (simp add: passes_def split: list.splits)
    from throttled_pass [OF p "0.prems", of U R G P C start all] Continue.hyps(1) lt
    obtain sT' where st: "history_step (throttled U) R G P C start all sT = Continue start' all' sT'"
      and u: "up sT' = (up sU', tl ns)"
      by (auto simp: agree_def split: step.splits)
    from Continue.IH [OF u] show ?case
      by (subst history_loop_step) (simp add: st)
  next
    case (Suc k)
    then obtain ns' where ns: "ns = Suc k # ns'" by (auto split: list.splits)
    from throttled_wait [OF lt Suc.prems [unfolded ns], of U R G P all]
    obtain sT' where st: "history_step (throttled U) R G P C start all sT = Continue start all sT'"
      and u: "up sT' = (up sU, k # ns')" by blast
    have "\<exists>sT''. history_loop (throttled U) R G P C start all sT' = Some (fst y, sT'') \<and>
              fst (up sT'') = up (snd y)"
      by (rule Suc.hyps(1) [OF _ u]) simp
    then show ?case
      by (subst history_loop_step) (simp add: st)
  qed
qed

lemma throttled_to_plain:
  assumes "history_loop (throttled U) R G P C start all sT = Some y"
  shows "fst (up sT) = up sU \<Longrightarrow>
         \<exists>sU'. history_loop U R G P C start all sU = Some (fst y, sU') \<and>
                up sU' = fst (up (snd y))"
  using assms
proof (induction arbitrary: sU rule: history_loop_induct)
  case (Return start all sT r sT')
  obtain w ns where u: "up sT = (w, ns)" by (cases "up sT")
  with Return.prems have us: "up sT = (up sU, ns)" by simp
  show ?case
  proof (cases "passes ns")
    case True
    from throttled_pass [OF True us, of U R G P C start all] Return.hyps
    show ?thesis
      by (subst history_loop_step) (auto simp: agree_def split: step.splits)
  next
    case False
    then obtain k ns' where ns: "ns = Suc k # ns'"
      using not_passes by blast
    have nlt: "\<not> start < C"
      using throttled_wait [OF _ us [unfolded ns], of start C U R G P all] Return.hyps by auto
    then have "r = Inr all" "sT' = sT"
      using Return.hyps by (simp_all add: history_step_def)
    with nlt Return.prems show ?thesis
      by (subst history_loop_step) (simp add: history_step_def)
  qed
next
  case (Continue start all sT start' all' sT' y)
  have lt: "start < C"
    using Continue.hyps(1) by (auto simp: history_step_def split: if_splits)
  obtain w ns where u: "up sT = (w, ns)" by (cases "up sT")
  with Continue.prems have us: "up sT = (up sU, ns)" by simp
  show ?case
  proof (cases "passes ns")
    case True
    from throttled_pass [OF True us, of U R G P C start all] Continue.hyps(1) lt
    obtain sU' where st: "history_step U R G P C start all sU = Continue start' all' sU'"
      and u': "up sT' = (up sU', tl ns)"
      by (auto simp: agree_def split: step.splits)
    have "fst (up sT') = up sU'" using u' by simp
    from Continue.IH [OF this] show ?thesis
      by (subst history_loop_step) (simp add: st)
  next
    case False
    then obtain k ns' where ns: "ns = Suc k # ns'"
      using not_passes by blast
    from throttled_wait [OF lt us [unfolded ns], of U R G P all] Continue.hyps(1)
    have "start' = start" "all' = all" "up sT' = (up sU, k # ns')" by auto
    then show ?thesis
      using Continue.IH [of sU] by simp
  qed
qed

lemma throttled_history_loop:
  assumes "up sT = (up sU, ns)"
  shows "map_option (\<lambda>(r, s). (r, fst (up s))) (history_loop (throttled U) R G P C start all sT) =
         map_option (\<lambda>(r, s). (r, up s)) (history_loop U R G P C start all sU)"
proof (cases "history_loop U R G P C start all sU")
  case (Some y)
  from plain_to_throttled [OF Some assms] Some show ?thesis
    by (auto simp: case_prod_beta)
next
  case None
  show ?thesis
  proof (cases "history_loop (throttled U) R G P C start all sT")
    case (Some y)
    from throttled_to_plain [OF Some, of sU] assms None show ?thesis by simp
  next
    case None': None
    with None show ?thesis by simp
  qed
qed

lemmas batch_defs = fullBatches_def hundredBatches_def endingBatches_def batches_def okResponse_def
  ok_def fetch_def sleep_def getMatchHistory_def route_na1 Let_def

text \<open>
  Claim C2: a batch that is answered 429 is asked again after a delay of 2000 ms (the
  delay after a full batch is 100 ms), with the same offset and the same list, however
  often that happens; so the call against an upstream behind a rate limiter returns what
  the call against the upstream itself returns (the same IDs or the same error, and the
  upstream is left in the same state), whatever the schedule of the limiter, and the call
  against an upstream that always answers 429 never returns (unless the region has no
  property key, which ends the call before the first request). Any other response that is
  not a success ends the call at once with an error.
\<close>

theorem rate_limit_is_retried:
  "(\<forall>start allMatches s r w'.
      start < count \<and>
      matchIds U (up s) (HistoryReq routing gameType p start (min 100 (count - start))) =
        (Inr r, w') \<and>
      status r = 429 \<longrightarrow>
      history_loop U routing gameType p count start allMatches s =
      history_loop U routing gameType p count start allMatches
        \<lparr>up = w', trace = trace s @
           [Fetch (HistoryReq routing gameType p start (min 100 (count - start))),
            Sleep 2000]\<rparr>) \<and>
   (\<forall>start allMatches s r w'.
      start < count \<and>
      matchIds U (up s) (HistoryReq routing gameType p start (min 100 (count - start))) =
        (Inr r, w') \<and>
      ok r \<and> \<not> length (payload r) < min 100 (count - start) \<longrightarrow>
      history_loop U routing gameType p count start allMatches s =
      history_loop U routing gameType p count (start + min 100 (count - start))
        (allMatches @ payload r)
        \<lparr>up = w', trace = trace s @
           [Fetch (HistoryReq routing gameType p start (min 100 (count - start))),
            Sleep 100]\<rparr>) \<and>
   (\<forall>start allMatches s r w'.
      start < count \<and>
      matchIds U (up s) (HistoryReq routing gameType p start (min 100 (count - start))) =
        (Inr r, w') \<and>
      \<not> ok r \<and> status r \<noteq> 429 \<longrightarrow>
      history_loop U routing gameType p count start allMatches s =
      Some (Inl (Error (''Failed to fetch match history: '' @ statusText r)),
        \<lparr>up = w', trace = trace s @
           [Fetch (HistoryReq routing gameType p start (min 100 (count - start)))]\<rparr>)) \<and>
   map_option (\<lambda>(r, s). (r, fst (up s)))
     (getMatchHistory (throttled U) p region mode count \<lparr>up = (w, ns), trace = t\<rparr>) =
   map_option (\<lambda>(r, s). (r, up s))
     (getMatchHistory U p region mode count \<lparr>up = w, trace = t\<rparr>) \<and>
   (\<forall>msg s. 0 < count \<longrightarrow>
      getMatchHistory (answering 429 msg) p region mode count s =
        (case route region of Inl e \<Rightarrow> Some (Inl e, s) | Inr cluster \<Rightarrow> None)) \<and>
   (\<forall>msg s start allMatches. start < count \<longrightarrow>
      history_loop (answering 429 msg) routing gameType p count start allMatches s = None)"
proof (intro conjI allI impI)
  show "getMatchHistory (answering 429 msg) p region mode count s =
        (case route region of Inl e \<Rightarrow> Some (Inl e, s) | Inr cluster \<Rightarrow> None)"
    if "0 < count" for msg s
    using that by (simp add: getMatchHistory_def always_rate_limited split: sum.splits)
  show "history_loop (answering 429 msg) routing gameType p count start allMatches s = None"
    if "start < count" for msg s start allMatches
    using that by (rule always_rate_limited)
  show "map_option (\<lambda>(r, s). (r, fst (up s)))
     (getMatchHistory (throttled U) p region mode count \<lparr>up = (w, ns), trace = t\<rparr>) =
   map_option (\<lambda>(r, s). (r, up s))
     (getMatchHistory U p region mode count \<lparr>up = w, trace = t\<rparr>)"
  proof (cases "route region")
    case (Inl e)
    then show ?thesis by (simp add: getMatchHistory_def)
  next
    case (Inr cluster)
    show ?thesis
      unfolding getMatchHistory_def Inr Let_def sum.case
      by (rule throttled_history_loop) simp
  qed
qed (simp_all add: history_loop_retry history_loop_full history_loop_fatal)

theorem rate_limit_is_retried_witness:
  "history_loop (throttled fullBatches) (Cluster ''americas'') ''lol'' ''p'' 250 0 []
     \<lparr>up = ((), [1]), trace = []\<rparr> =
   history_loop (throttled fullBatches) (Cluster ''americas'') ''lol'' ''p'' 250 0 []
     \<lparr>up = ((), [0]),
      trace = [Fetch (HistoryReq (Cluster ''americas'') ''lol'' ''p'' 0 100), Sleep 2000]\<rparr> \<and>
   history_loop fullBatches (Cluster ''americas'') ''lol'' ''p'' 250 0 []
     \<lparr>up = (), trace = []\<rparr> =
   history_loop fullBatches (Cluster ''americas'') ''lol'' ''p'' 250 100 (replicate 100 ''id'')
     \<lparr>up = (),
      trace = [Fetch (HistoryReq (Cluster ''americas'') ''lol'' ''p'' 0 100), Sleep 100]\<rparr> \<and>
   history_loop (answering 500 ''Internal Server Error'') (Cluster ''americas'') ''lol'' ''p'' 250 0 []
     \<lparr>up = (), trace = []\<rparr> =
   Some (Inl (Error ''Failed to fetch match history: Internal Server Error''),
     \<lparr>up = (), trace = [Fetch (HistoryReq (Cluster ''americas'') ''lol'' ''p'' 0 100)]\<rparr>) \<and>
   map_option (\<lambda>(r, s). (r, fst (up s)))
     (getMatchHistory (throttled fullBatches) ''p'' (JStr ''na1'') (JStr ''lol'') 250
        \<lparr>up = ((), [2, 0, 1]), trace = []\<rparr>) =
   Some (Inr (replicate 250 ''id''), ()) \<and>
   getMatchHistory (answering 429 ''Too Many Requests'') ''p'' (JStr ''na1'') (JStr ''lol'') 250
     \<lparr>up = (), trace = []\<rparr> = None"
proof -
  note t = rate_limit_is_retried [of 250 "throttled fullBatches" "Cluster ''americas''" "''lol''" "''p''"]
    rate_limit_is_retried [of 250 fullBatches "Cluster ''americas''" "''lol''" "''p''"
      "JStr ''na1''" "JStr ''lol''" "()" "[2, 0, 1]" "[]"]
    rate_limit_is_retried [of 250 "answering 500 ''Internal Server Error''" "Cluster ''americas''"
      "''lol''" "''p''"]
  have m: "matchIds fullBatches w (HistoryReq R G P start n) =
           (Inr (okResponse (replicate n ''id'')), w)" for w R G P start n
    by (simp add: fullBatches_def batches_def)
  have o: "ok (okResponse x)" "payload (okResponse x) = x" for x :: "string list"
    by (simp_all add: okResponse_def ok_def)
  from t(1) [THEN conjunct1, rule_format,
      of 0 "\<lparr>up = ((), [1]), trace = []\<rparr>" "rateLimited []" "((), [0])" "[]"]
  have a: "history_loop (throttled fullBatches) (Cluster ''americas'') ''lol'' ''p'' 250 0 []
     \<lparr>up = ((), [1]), trace = []\<rparr> =
   history_loop (throttled fullBatches) (Cluster ''americas'') ''lol'' ''p'' 250 0 []
     \<lparr>up = ((), [0]),
      trace = [Fetch (HistoryReq (Cluster ''americas'') ''lol'' ''p'' 0 100), Sleep 2000]\<rparr>"
    by (simp add: throttled_def rateLimited_def)
  from t(2) [THEN conjunct2, THEN conjunct1, rule_format,
      of 0 "\<lparr>up = (), trace = []\<rparr>" "okResponse (replicate 100 ''id'')" "()" "[]"]
  have b: "history_loop fullBatches (Cluster ''americas'') ''lol'' ''p'' 250 0 []
     \<lparr>up = (), trace = []\<rparr> =
   history_loop fullBatches (Cluster ''americas'') ''lol'' ''p'' 250 100 (replicate 100 ''id'')
     \<lparr>up = (),
      trace = [Fetch (HistoryReq (Cluster ''americas'') ''lol'' ''p'' 0 100), Sleep 100]\<rparr>"
    by (simp add: m o)
  from t(3) [THEN conjunct2, THEN conjunct2, THEN conjunct1, rule_format,
      of 0 "\<lparr>up = (), trace = []\<rparr>"
        "\<lparr>status = 500, statusText = ''Internal Server Error'', payload = []\<rparr>" "()" "[]"]
  have c: "history_loop (answering 500 ''Internal Server Error'') (Cluster ''americas'') ''lol''
     ''p'' 250 0 [] \<lparr>up = (), trace = []\<rparr> =
   Some (Inl (Error ''Failed to fetch match history: Internal Server Error''),
     \<lparr>up = (), trace = [Fetch (HistoryReq (Cluster ''americas'') ''lol'' ''p'' 0 100)]\<rparr>)"
    by (simp add: answering_def ok_def)
  have "getMatchHistory fullBatches ''p'' (JStr ''na1'') (JStr ''lol'') 250
     \<lparr>up = (), trace = []\<rparr> =
   Some (Inr (replicate 250 ''id''),
     \<lparr>up = (),
      trace =
        [Fetch (HistoryReq (Cluster ''americas'') ''lol'' ''p'' 0 100), Sleep 100,
         Fetch (HistoryReq (Cluster ''americas'') ''lol'' ''p'' 100 100), Sleep 100,
         Fetch (HistoryReq (Cluster ''americas'') ''lol'' ''p'' 200 50), Sleep 100]\<rparr>)"
    by (simp add: batch_defs history_loop.simps replicate_add [symmetric])
  with t(2) [THEN conjunct2, THEN conjunct2, THEN conjunct2, THEN conjunct1]
  have d: "map_option (\<lambda>(r, s). (r, fst (up s)))
     (getMatchHistory (throttled fullBatches) ''p'' (JStr ''na1'') (JStr ''lol'') 250
        \<lparr>up = ((), [2, 0, 1]), trace = []\<rparr>) =
   Some (Inr (replicate 250 ''id''), ())"
    by simp
  from t(2) [THEN conjunct2, THEN conjunct2, THEN conjunct2, THEN conjunct2, THEN conjunct1,
      rule_format, of "''Too Many Requests''" "\<lparr>up = (), trace = []\<rparr>"]
  have e: "getMatchHistory (answering 429 ''Too Many Requests'') ''p'' (JStr ''na1'')
     (JStr ''lol'') 250 \<lparr>up = (), trace = []\<rparr> = None"
    by (simp add: route_na1)
  from a b c d e show ?thesis by simp
qed

subsection \<open>The end of the pagination\<close>




lemma three_batches:
  assumes rt: "route region = Inr host"
    and b1: "matchIds U (up s)
        (HistoryReq host (if mode = JStr ''tft'' then ''tft'' else ''lol'') p 0 100) =
        (Inr r1, w1)" "ok r1" "length (payload r1) = 100"
    and b2: "matchIds U w1
        (HistoryReq host (if mode = JStr ''tft'' then ''tft'' else ''lol'') p 100 100) =
        (Inr r2, w2)" "ok r2" "length (payload r2) = 100"
    and b3: "matchIds U w2
        (HistoryReq host (if mode = JStr ''tft'' then ''tft'' else ''lol'') p 200 100) =
        (Inr r3, w3)" "ok r3" "length (payload r3) = 40"
  shows "getMatchHistory U p region mode 500 s =
        Some (Inr (payload r1 @ payload r2 @ payload r3),
          \<lparr>up = w3,
           trace = trace s @
             [Fetch (HistoryReq host (if mode = JStr ''tft'' then ''tft'' else ''lol'')
                p 0 100), Sleep 100,
              Fetch (HistoryReq host (if mode = JStr ''tft'' then ''tft'' else ''lol'')
                p 100 100), Sleep 100,
              Fetch (HistoryReq host (if mode = JStr ''tft'' then ''tft'' else ''lol'')
                p 200 100)]\<rparr>) \<and>
      length (payload r1 @ payload r2 @ payload r3) = 240"
proof -
  let ?R = "host" and ?G = "if mode = JStr ''tft'' then ''tft'' else ''lol''"
  let ?H = "HistoryReq ?R ?G p"
  let ?s1 = "\<lparr>up = w1, trace = trace s @ [Fetch (?H 0 100), Sleep 100]\<rparr>"
  let ?s2 = "\<lparr>up = w2, trace = trace ?s1 @ [Fetch (?H 100 100), Sleep 100]\<rparr>"
  let ?s3 = "\<lparr>up = w3, trace = trace ?s2 @ [Fetch (?H 200 100)]\<rparr>"
  have ne: "payload r3 \<noteq> []" using b3 by auto
  have "history_loop U ?R ?G p 500 0 [] s = history_loop U ?R ?G p 500 100 (payload r1) ?s1"
    using history_loop_full [of 0 500 U s ?R ?G p r1 w1 "[]"] b1 by auto
  also have "\<dots> = history_loop U ?R ?G p 500 200 (payload r1 @ payload r2) ?s2"
    using history_loop_full [of 100 500 U ?s1 ?R ?G p r2 w2 "payload r1"] b2 by auto
  also have "\<dots> = Some (Inr (payload r1 @ payload r2 @ payload r3), ?s3)"
    using history_loop_short [of 200 500 U ?s2 ?R ?G p r3 w3 "payload r1 @ payload r2"] b3 ne
    by auto
  finally have "getMatchHistory U p region mode 500 s =
      Some (Inr (payload r1 @ payload r2 @ payload r3), ?s3)"
    by (simp add: getMatchHistory_def rt)
  moreover have "length (payload r1 @ payload r2 @ payload r3) = 240"
    using b1 b2 b3 by simp
  ultimately show ?thesis by simp
qed

text \<open>
  Claim C4: with \<^verbatim>\<open>maxCount = 500\<close> and an upstream whose first two batches have 100 IDs
  and whose third batch has 40, the call ends after exactly 3 requests with the 240 IDs
  of the three batches; and an empty batch ends the loop at once with the IDs gathered
  so far. The region is any value that has a property key, as every string has.
\<close>

theorem short_batch_ends_history:
  "(\<forall>host r1 w1 r2 w2 r3 w3.
      route region = Inr host \<and>
      matchIds U (up s)
        (HistoryReq host (if mode = JStr ''tft'' then ''tft'' else ''lol'') p 0 100) =
        (Inr r1, w1) \<and> ok r1 \<and> length (payload r1) = 100 \<and>
      matchIds U w1
        (HistoryReq host (if mode = JStr ''tft'' then ''tft'' else ''lol'') p 100 100) =
        (Inr r2, w2) \<and> ok r2 \<and> length (payload r2) = 100 \<and>
      matchIds U w2
        (HistoryReq host (if mode = JStr ''tft'' then ''tft'' else ''lol'') p 200 100) =
        (Inr r3, w3) \<and> ok r3 \<and> length (payload r3) = 40 \<longrightarrow>
      getMatchHistory U p region mode 500 s =
        Some (Inr (payload r1 @ payload r2 @ payload r3),
          \<lparr>up = w3,
           trace = trace s @
             [Fetch (HistoryReq host (if mode = JStr ''tft'' then ''tft'' else ''lol'')
                p 0 100), Sleep 100,
              Fetch (HistoryReq host (if mode = JStr ''tft'' then ''tft'' else ''lol'')
                p 100 100), Sleep 100,
              Fetch (HistoryReq host (if mode = JStr ''tft'' then ''tft'' else ''lol'')
                p 200 100)]\<rparr>) \<and>
      length (payload r1 @ payload r2 @ payload r3) = 240) \<and>
   (\<forall>start allMatches s' r w'.
      start < count \<and>
      matchIds U (up s') (HistoryReq routing gameType p start (min 100 (count - start))) =
        (Inr r, w') \<and>
      ok r \<and> payload r = [] \<longrightarrow>
      history_loop U routing gameType p count start allMatches s' =
        Some (Inr allMatches,
          \<lparr>up = w', trace = trace s' @
             [Fetch (HistoryReq routing gameType p start (min 100 (count - start)))]\<rparr>))"
proof (rule conjI)
  show "\<forall>host r1 w1 r2 w2 r3 w3.
      route region = Inr host \<and>
      matchIds U (up s)
        (HistoryReq host (if mode = JStr ''tft'' then ''tft'' else ''lol'') p 0 100) =
        (Inr r1, w1) \<and> ok r1 \<and> length (payload r1) = 100 \<and>
      matchIds U w1
        (HistoryReq host (if mode = JStr ''tft'' then ''tft'' else ''lol'') p 100 100) =
        (Inr r2, w2) \<and> ok r2 \<and> length (payload r2) = 100 \<and>
      matchIds U w2
        (HistoryReq host (if mode = JStr ''tft'' then ''tft'' else ''lol'') p 200 100) =
        (Inr r3, w3) \<and> ok r3 \<and> length (payload r3) = 40 \<longrightarrow>
      getMatchHistory U p region mode 500 s =
        Some (Inr (payload r1 @ payload r2 @ payload r3),
          \<lparr>up = w3,
           trace = trace s @
             [Fetch (HistoryReq host (if mode = JStr ''tft'' then ''tft'' else ''lol'')
                p 0 100), Sleep 100,
              Fetch (HistoryReq host (if mode = JStr ''tft'' then ''tft'' else ''lol'')
                p 100 100), Sleep 100,
              Fetch (HistoryReq host (if mode = JStr ''tft'' then ''tft'' else ''lol'')
                p 200 100)]\<rparr>) \<and>
      length (payload r1 @ payload r2 @ payload r3) = 240"
    by (intro allI impI, elim conjE, rule three_batches)
  show "\<forall>start allMatches s' r w'.
      start < count \<and>
      matchIds U (up s') (HistoryReq routing gameType p start (min 100 (count - start))) =
        (Inr r, w') \<and>
      ok r \<and> payload r = [] \<longrightarrow>
      history_loop U routing gameType p count start allMatches s' =
        Some (Inr allMatches,
          \<lparr>up = w', trace = trace s' @
             [Fetch (HistoryReq routing gameType p start (min 100 (count - start)))]\<rparr>)"
    by (intro allI impI, elim conjE, rule history_loop_empty)
qed

theorem short_batch_ends_history_witness:
  "getMatchHistory (endingBatches 40) ''p'' (JStr ''na1'') (JStr ''lol'') 500
     \<lparr>up = (), trace = []\<rparr> =
   Some (Inr (replicate 240 ''id''),
     \<lparr>up = (),
      trace =
        [Fetch (HistoryReq (Cluster ''americas'') ''lol'' ''p'' 0 100), Sleep 100,
         Fetch (HistoryReq (Cluster ''americas'') ''lol'' ''p'' 100 100), Sleep 100,
         Fetch (HistoryReq (Cluster ''americas'') ''lol'' ''p'' 200 100)]\<rparr>) \<and>
   history_loop (endingBatches 0) (Cluster ''americas'') ''lol'' ''p'' 500 200 (replicate 200 ''id'')
     \<lparr>up = (), trace = []\<rparr> =
   Some (Inr (replicate 200 ''id''),
     \<lparr>up = (), trace = [Fetch (HistoryReq (Cluster ''americas'') ''lol'' ''p'' 200 100)]\<rparr>)"
proof -
  have r: "route (JStr ''na1'') = Inr (Cluster ''americas'')"
    by (rule route_na1)
  have b: "matchIds (endingBatches n) () (HistoryReq R G P start count) =
           (Inr (okResponse (replicate (if start < 200 then 100 else n) ''id'')), ())"
    for n R G P start count
    by (simp add: endingBatches_def batches_def)
  have o: "ok (okResponse x)" "payload (okResponse x) = x" for x :: "string list"
    by (simp_all add: okResponse_def ok_def)
  note t = short_batch_ends_history [where U = "endingBatches 40"
      and s = "\<lparr>up = (), trace = []\<rparr>" and region = "JStr ''na1''" and mode = "JStr ''lol''"
      and p = "''p''"]
    short_batch_ends_history [where U = "endingBatches 0" and p = "''p''" and count = 500
      and routing = "Cluster ''americas''" and gameType = "''lol''"]
  from t(1) [THEN conjunct1, rule_format,
      of "Cluster ''americas''" "okResponse (replicate 100 ''id'')" "()"
         "okResponse (replicate 100 ''id'')" "()" "okResponse (replicate 40 ''id'')" "()"]
  have "getMatchHistory (endingBatches 40) ''p'' (JStr ''na1'') (JStr ''lol'') 500
     \<lparr>up = (), trace = []\<rparr> =
   Some (Inr (replicate 240 ''id''),
     \<lparr>up = (),
      trace =
        [Fetch (HistoryReq (Cluster ''americas'') ''lol'' ''p'' 0 100), Sleep 100,
         Fetch (HistoryReq (Cluster ''americas'') ''lol'' ''p'' 100 100), Sleep 100,
         Fetch (HistoryReq (Cluster ''americas'') ''lol'' ''p'' 200 100)]\<rparr>)"
    by (simp add: b o r replicate_add [symmetric])
  moreover from t(2) [THEN conjunct2, rule_format,
      of 200 "\<lparr>up = (), trace = []\<rparr>" "okResponse []" "()" "replicate 200 ''id''"]
  have "history_loop (endingBatches 0) (Cluster ''americas'') ''lol'' ''p'' 500 200
     (replicate 200 ''id'') \<lparr>up = (), trace = []\<rparr> =
   Some (Inr (replicate 200 ''id''),
     \<lparr>up = (), trace = [Fetch (HistoryReq (Cluster ''americas'') ''lol'' ''p'' 200 100)]\<rparr>)"
    by (simp add: b o)
  ultimately show ?thesis by simp
qed

end
